theory Spec2Isabelle
  imports Main "HOL-Library.AList"
begin

section \<open>Route condition wording (CommonIntegrationHelper)\<close>

text \<open>
  Channel filter ids are strings. An array of ids is a list; for such a dense array
  \<^verbatim>\<open>Object.keys(channelFilters).length\<close> is the number of its elements. The route index
  is a whole number; it is an \<open>int\<close> because the code compares it with
  \<^verbatim>\<open>totalCount - 1\<close>, which is \<open>-1\<close> for the empty array. The functions return string
  literals, which stay strings here.
\<close>

type_synonym ident = string

definition truthy_number :: "int \<Rightarrow> bool" where
  "truthy_number n = (n \<noteq> 0)"

definition getRouteConditionWording :: "ident list \<Rightarrow> int \<Rightarrow> string" where
  "getRouteConditionWording channelFilters routeIndex =
     (let totalCount = int (length channelFilters)
      in if routeIndex = totalCount - 1 then ''Default''
         else (if truthy_number routeIndex then ''Else'' else ''If''))"

text \<open>
  \<^verbatim>\<open>labels?.length\<close>: the label list may be undefined (\<open>None\<close>); the test is truthy
  exactly for a list that is there and not empty.
\<close>

definition labels_length_truthy :: "'l list option \<Rightarrow> bool" where
  "labels_length_truthy labels =
     (case labels of None \<Rightarrow> False | Some ls \<Rightarrow> truthy_number (int (length ls)))"

definition getRouteConditionTooltipWording :: "ident list \<Rightarrow> int \<Rightarrow> 'l list option \<Rightarrow> string" where
  "getRouteConditionTooltipWording channelFilters routeIndex labels =
     (let totalCount = int (length channelFilters)
      in if routeIndex = totalCount - 1
         then ''If the alert payload does not match to the previous routes, it will stick to the default route.''
         else if labels_length_truthy labels
           then ''Alerts matching these labels will be grouped to this route''
           else ''Alerts will be grouped based on the Routing Template and escalated'')"

section \<open>Data held by the alert receive channel store\<close>

text \<open>
  The DTO types are declared outside the two source files; the records below carry the
  properties that the store reads or writes. An optional, nullable property is absent
  (\<open>Missing\<close>), null, or holds an object.
\<close>

datatype 'a optional = Missing | Null | Present 'a

record Heartbeat =
  hb_id :: ident
  hb_data :: string

record AlertReceiveChannel =
  arc_id :: ident
  heartbeat :: "Heartbeat optional"
  description_short :: string
  verbal_name :: string
  allow_source_based_resolving :: bool
  alert_group_labels :: string

record ChannelFilter =
  cf_id :: ident
  alert_receive_channel :: ident
  cf_data :: string

type_synonym AlertReceiveChannelCounters = "(string \<times> int) list"

type_synonym AlertTemplatesDTO = string

record ContactPoint =
  dataSourceName :: string
  dataSourceId :: string
  contactPoint :: string
  notificationConnected :: bool

record contact_point_dto =
  cp_name :: string
  notification_connected :: bool

record contact_points_payload =
  ds_name :: string
  ds_uid :: string
  contact_points :: "contact_point_dto list"

record paginated_search =
  count :: "int option"
  results :: "ident list option"
  page_size :: "int option"

record channels_page =
  page_count :: int
  page_results :: "AlertReceiveChannel list"
  page_page_size :: int

text \<open>
  The observable state: the fields of AlertReceiveChannelStore, and the items of the
  heartbeat store, which populateHearbeats writes through rootStore. An object used as
  a dictionary is a map; \<^verbatim>\<open>{...a, ...b}\<close> is \<open>a ++ b\<close>. searchResult has no
  initial value.
\<close>

record store =
  searchResult :: "ident list option"
  paginatedSearchResult :: paginated_search
  items :: "ident \<rightharpoonup> AlertReceiveChannel"
  counters :: "ident \<rightharpoonup> AlertReceiveChannelCounters"
  channelFilterIds :: "ident \<rightharpoonup> ident list"
  channelFilters :: "ident \<rightharpoonup> ChannelFilter"
  alertReceiveChannelToHeartbeat :: "ident \<rightharpoonup> ident"
  actions :: "ident \<rightharpoonup> string list"
  alertReceiveChannelOptions :: "string list"
  templates :: "ident \<rightharpoonup> AlertTemplatesDTO"
  connectedContactPoints :: "ident \<rightharpoonup> ContactPoint list"
  heartbeatStore_items :: "ident \<rightharpoonup> Heartbeat"

definition initial_store :: store where
  "initial_store =
     \<lparr>searchResult = None,
      paginatedSearchResult = \<lparr>count = None, results = None, page_size = None\<rparr>,
      items = Map.empty, counters = Map.empty, channelFilterIds = Map.empty,
      channelFilters = Map.empty, alertReceiveChannelToHeartbeat = Map.empty,
      actions = Map.empty, alertReceiveChannelOptions = [], templates = Map.empty,
      connectedContactPoints = Map.empty, heartbeatStore_items = Map.empty\<rparr>"

section \<open>Requests, responses and the trace of an operation\<close>

text \<open>
  A request is what the store hands to makeRequest or to the typed client onCallApi:
  HTTP method (verb), path (for the typed client, the path template with its path parameter filled
  in), query parameters (a parameter that is undefined is left out), body and the two
  client options the store sets.
\<close>

datatype http_method = GET | PUT | POST | DELETE

datatype body =
    NoBody
  | Data string
  | ChannelData AlertReceiveChannel
  | IntegrationData string string bool string string

record request =
  verb :: http_method
  path :: string
  params :: "(string \<times> string) list"
  body :: body
  skipErrorHandling :: bool
  withCredentials :: bool

definition req :: "http_method \<Rightarrow> string \<Rightarrow> request" where
  "req m p = \<lparr>verb = m, path = p, params = [], body = NoBody,
              skipErrorHandling = False, withCredentials = False\<rparr>"

datatype response =
    RChannel AlertReceiveChannel
  | RPage channels_page
  | RFilters "ChannelFilter list"
  | RFilter ChannelFilter
  | ROptions "string list"
  | RTemplates AlertTemplatesDTO
  | RContactPoints "contact_points_payload list"
  | RCounters "ident \<rightharpoonup> AlertReceiveChannelCounters"
  | RAny

text \<open>
  What lies outside the store: the network (\<open>None\<close> when the awaited promise rejects),
  the helper move of state/helpers, whose source is not among the files, whether
  organizationStore.loadCurrentOrganization resolves, and what the conversion of a
  number to a string prints for a whole number that is not a safe integer (from
  \<open>2^53\<close> on it prints the shortest decimal that reads back as the same number, and
  from \<open>10^21\<close> on it prints the exponent form; the model computes neither).
\<close>

record env =
  network :: "request \<Rightarrow> response option"
  move :: "ident list \<Rightarrow> int \<Rightarrow> int \<Rightarrow> ident list"
  loadCurrentOrganization :: bool
  numberToString :: "int \<Rightarrow> string"

text \<open>
  Each endpoint has a declared response type. A rejected call and a body of another
  type both take the failure branch of the operation that awaits it.
\<close>

fun channel_of :: "response option \<Rightarrow> AlertReceiveChannel option" where
  "channel_of (Some (RChannel c)) = Some c"
| "channel_of _ = None"

fun page_of :: "response option \<Rightarrow> channels_page option" where
  "page_of (Some (RPage p)) = Some p"
| "page_of _ = None"

fun filters_of :: "response option \<Rightarrow> ChannelFilter list option" where
  "filters_of (Some (RFilters fs)) = Some fs"
| "filters_of _ = None"

fun filter_of :: "response option \<Rightarrow> ChannelFilter option" where
  "filter_of (Some (RFilter f)) = Some f"
| "filter_of _ = None"

fun options_of :: "response option \<Rightarrow> string list option" where
  "options_of (Some (ROptions os)) = Some os"
| "options_of _ = None"

fun templates_of :: "response option \<Rightarrow> AlertTemplatesDTO option" where
  "templates_of (Some (RTemplates t)) = Some t"
| "templates_of _ = None"

fun contact_points_of :: "response option \<Rightarrow> contact_points_payload list option" where
  "contact_points_of (Some (RContactPoints ps)) = Some ps"
| "contact_points_of _ = None"

fun counters_of :: "response option \<Rightarrow> (ident \<rightharpoonup> AlertReceiveChannelCounters) option" where
  "counters_of (Some (RCounters c)) = Some c"
| "counters_of _ = None"

text \<open>
  The trace records, in order, every request issued, every block run inside
  runInAction with the field it assigns, every assignment to a field made outside
  runInAction, and every call to another store.
\<close>

datatype field =
    SearchResult | PaginatedSearchResult | Items | Counters | ChannelFilterIds
  | ChannelFilters | AlertReceiveChannelToHeartbeat | AlertReceiveChannelOptions
  | Templates | ConnectedContactPoints | HeartbeatStoreItems

datatype event =
    Request request
  | RunInAction field
  | Assign field
  | Call string

record world =
  st :: store
  log :: "event list"

datatype error = TypeError | RequestFailed | CallFailed

datatype 'a outcome = Returned 'a | Threw error

definition emit :: "event \<Rightarrow> world \<Rightarrow> world" where
  "emit e w = w\<lparr>log := log w @ [e]\<rparr>"

definition runInAction :: "field \<Rightarrow> (store \<Rightarrow> store) \<Rightarrow> world \<Rightarrow> world" where
  "runInAction f upd w = \<lparr>st = upd (st w), log = log w @ [RunInAction f]\<rparr>"

definition assign :: "field \<Rightarrow> (store \<Rightarrow> store) \<Rightarrow> world \<Rightarrow> world" where
  "assign f upd w = \<lparr>st = upd (st w), log = log w @ [Assign f]\<rparr>"

section \<open>JavaScript built-ins used by the store\<close>

text \<open>
  A template literal, like the serialisation of a query parameter, prints a number by
  its conversion to a string. For a safe integer, one of absolute value below \<open>2^53\<close>,
  that is its decimal digits; array positions are safe integers. For any other whole
  number it is what the environment says.
\<close>

fun digits :: "nat \<Rightarrow> string" where
  "digits n = (if n < 10 then [''0123456789'' ! n]
               else digits (n div 10) @ [''0123456789'' ! (n mod 10)])"

declare digits.simps [simp del]

definition show_int :: "int \<Rightarrow> string" where
  "show_int i = (if i < 0 then CHR ''-'' # digits (nat (- i)) else digits (nat i))"

definition safe_integer :: "int \<Rightarrow> bool" where
  "safe_integer i \<longleftrightarrow> - (2 ^ 53) < i \<and> i < 2 ^ 53"

definition number_text :: "env \<Rightarrow> int \<Rightarrow> string" where
  "number_text e i = (if safe_integer i then show_int i else numberToString e i)"

text \<open>\<^verbatim>\<open>xs[i]\<close> is undefined outside the array; a template literal prints that as the
  word undefined.\<close>

definition js_index :: "'a list \<Rightarrow> int \<Rightarrow> 'a option" where
  "js_index xs i = (if 0 \<le> i \<and> i < int (length xs) then Some (xs ! nat i) else None)"

definition template_ident :: "ident option \<Rightarrow> string" where
  "template_ident v = (case v of None \<Rightarrow> ''undefined'' | Some x \<Rightarrow> x)"

text \<open>\<^verbatim>\<open>xs.indexOf(x)\<close>: the first position of \<open>x\<close>, or \<open>-1\<close>.\<close>

fun indexOf_from :: "'a list \<Rightarrow> 'a \<Rightarrow> int \<Rightarrow> int" where
  "indexOf_from [] x i = - 1"
| "indexOf_from (y # ys) x i = (if y = x then i else indexOf_from ys x (i + 1))"

definition indexOf :: "'a list \<Rightarrow> 'a \<Rightarrow> int" where
  "indexOf xs x = indexOf_from xs x 0"

text \<open>\<^verbatim>\<open>xs.splice(start, 1)\<close>: a negative start counts from the end, a start beyond the
  end is the end; one element is removed if there is one at the start.\<close>

definition splice_one :: "'a list \<Rightarrow> int \<Rightarrow> 'a list" where
  "splice_one xs start =
     (let len = int (length xs);
          actualStart = (if start < 0 then max (len + start) 0 else min start len)
      in take (nat actualStart) xs @ drop (nat actualStart + 1) xs)"

text \<open>\<^verbatim>\<open>v || null\<close> on an optional object.\<close>

fun or_null :: "'a optional \<Rightarrow> 'a optional" where
  "or_null (Present h) = Present h"
| "or_null _ = Null"

section \<open>The operations of AlertReceiveChannelStore\<close>

text \<open>
  An operation takes the world (store and trace so far) and gives its outcome and the
  world it leaves. An awaited call that fails ends the operation with \<open>Threw\<close>; what
  was written before stays written. A call that is not awaited runs to its end and its
  outcome is dropped.
\<close>

definition create ::
  "env \<Rightarrow> AlertReceiveChannel \<Rightarrow> bool \<Rightarrow> world \<Rightarrow> AlertReceiveChannel outcome \<times> world" where
  "create e data skip w =
     (let r = (req POST ''/alert_receive_channels/'')
                \<lparr>body := ChannelData data, skipErrorHandling := skip\<rparr>;
          w1 = emit (Request r) w
      in case channel_of (network e r) of
           None \<Rightarrow> (Threw RequestFailed, w1)
         | Some result \<Rightarrow>
             (let w2 = emit (Call ''organizationStore.loadCurrentOrganization'') w1
              in if loadCurrentOrganization e then (Returned result, w2)
                 else (Threw CallFailed, w2)))"

definition update ::
  "env \<Rightarrow> ident \<Rightarrow> AlertReceiveChannel \<Rightarrow> bool \<Rightarrow> world
     \<Rightarrow> AlertReceiveChannel outcome \<times> world" where
  "update e i data skip w =
     (let r = (req PUT (''/alert_receive_channels/'' @ i @ ''/''))
                \<lparr>body := ChannelData data, skipErrorHandling := skip\<rparr>;
          w1 = emit (Request r) w
      in case channel_of (network e r) of
           None \<Rightarrow> (Threw RequestFailed, w1)
         | Some result \<Rightarrow>
             (let w2 = emit (Call ''organizationStore.loadCurrentOrganization'') w1
              in if loadCurrentOrganization e then (Returned result, w2)
                 else (Threw CallFailed, w2)))"

text \<open>
  \<^verbatim>\<open>acc[key] = value\<close> on a plain object adds or overwrites the property, except for
  the key __proto__: there the assignment goes to the prototype accessor and the object
  gets no property, so the later spread copies nothing for it.
\<close>

definition set_property :: "(string \<rightharpoonup> 'a) \<Rightarrow> string \<Rightarrow> 'a \<Rightarrow> (string \<rightharpoonup> 'a)" where
  "set_property acc k v = (if k = ''__proto__'' then acc else acc(k \<mapsto> v))"

definition populateHearbeats :: "AlertReceiveChannel list \<Rightarrow> world \<Rightarrow> world" where
  "populateHearbeats alertReceiveChannels w =
     (let heartbeats =
            foldl (\<lambda>acc c. case heartbeat c of Present h \<Rightarrow> set_property acc (hb_id h) h
                           | _ \<Rightarrow> acc)
              Map.empty alertReceiveChannels;
          w1 = runInAction HeartbeatStoreItems
                 (\<lambda>s. s\<lparr>heartbeatStore_items := heartbeatStore_items s ++ heartbeats\<rparr>) w;
          toHeartbeat =
            foldl (\<lambda>acc c. case heartbeat c of
                             Present h \<Rightarrow> set_property acc (arc_id c) (hb_id h)
                           | _ \<Rightarrow> acc)
              Map.empty alertReceiveChannels
      in runInAction AlertReceiveChannelToHeartbeat
           (\<lambda>s. s\<lparr>alertReceiveChannelToHeartbeat :=
                     alertReceiveChannelToHeartbeat s ++ toHeartbeat\<rparr>) w1)"

definition fetchItemById ::
  "env \<Rightarrow> ident \<Rightarrow> bool \<Rightarrow> world \<Rightarrow> AlertReceiveChannel outcome \<times> world" where
  "fetchItemById e i skip w =
     (let r = (req GET (''/alert_receive_channels/'' @ i @ ''/''))\<lparr>skipErrorHandling := skip\<rparr>;
          w1 = emit (Request r) w
      in case channel_of (network e r) of
           None \<Rightarrow> (Threw RequestFailed, w1)
         | Some d \<Rightarrow>
             (let w2 = runInAction Items
                         (\<lambda>s. s\<lparr>items := (items s)(i \<mapsto> d\<lparr>heartbeat := or_null (heartbeat d)\<rparr>)\<rparr>)
                         w1;
                  w3 = populateHearbeats [d] w2
              in (Returned d, w3)))"

definition fetchCounters :: "env \<Rightarrow> world \<Rightarrow> unit outcome \<times> world" where
  "fetchCounters e w =
     (let r = req GET ''/alert_receive_channels/counters/'';
          w1 = emit (Request r) w
      in case counters_of (network e r) of
           None \<Rightarrow> (Threw RequestFailed, w1)
         | Some d \<Rightarrow> (Returned (), runInAction Counters (\<lambda>s. s\<lparr>counters := d\<rparr>) w1))"

text \<open>\<^verbatim>\<open>omit(item, 'heartbeat')\<close> drops the property.\<close>

definition omit_heartbeat :: "AlertReceiveChannel \<Rightarrow> AlertReceiveChannel" where
  "omit_heartbeat item = item\<lparr>heartbeat := Missing\<rparr>"

definition keyed_without_heartbeat ::
  "AlertReceiveChannel list \<Rightarrow> (ident \<rightharpoonup> AlertReceiveChannel)" where
  "keyed_without_heartbeat rs =
     foldl (\<lambda>acc item. acc(arc_id item \<mapsto> omit_heartbeat item)) Map.empty rs"

datatype query = Search string | Params "(string \<times> string) list"

definition fetchItems ::
  "env \<Rightarrow> query \<Rightarrow> world \<Rightarrow> AlertReceiveChannel list outcome \<times> world" where
  "fetchItems e q w =
     (let ps = (case q of Search text \<Rightarrow> [(''search'', text)] | Params p \<Rightarrow> p);
          r = (req GET ''/alert_receive_channels/'')\<lparr>params := ps\<rparr>;
          w1 = emit (Request r) w
      in case page_of (network e r) of
           None \<Rightarrow> (Threw RequestFailed, w1)
         | Some d \<Rightarrow>
             (let rs = page_results d;
                  w2 = runInAction Items
                         (\<lambda>s. s\<lparr>items := items s ++ keyed_without_heartbeat rs\<rparr>) w1;
                  w3 = populateHearbeats rs w2;
                  w4 = runInAction SearchResult
                         (\<lambda>s. s\<lparr>searchResult := Some (map arc_id rs)\<rparr>) w3;
                  w5 = snd (fetchCounters e w4)
              in (Returned rs, w5)))"

text \<open>invalidateFn may be left undefined (\<open>None\<close>); when given it is called once the
  response is there, and \<open>Some b\<close> is what it answers.\<close>

definition fetchPaginatedItems ::
  "env \<Rightarrow> (string \<times> string) list \<Rightarrow> int \<Rightarrow> bool \<Rightarrow> bool option \<Rightarrow> world
     \<Rightarrow> AlertReceiveChannel list option outcome \<times> world" where
  "fetchPaginatedItems e filters page shouldFetchCounters invalidateFn w =
     (let r = (req GET ''/alert_receive_channels/'')
                \<lparr>params := AList.update ''page'' (number_text e page) filters\<rparr>;
          w1 = emit (Request r) w
      in case page_of (network e r) of
           None \<Rightarrow> (Threw RequestFailed, w1)
         | Some d \<Rightarrow>
             if invalidateFn = Some True then (Returned None, w1)
             else
               (let rs = page_results d;
                    w2 = runInAction Items
                           (\<lambda>s. s\<lparr>items := items s ++ keyed_without_heartbeat rs\<rparr>) w1;
                    w3 = populateHearbeats rs w2;
                    w4 = runInAction PaginatedSearchResult
                           (\<lambda>s. s\<lparr>paginatedSearchResult :=
                                     \<lparr>count = Some (page_count d),
                                      results = Some (map arc_id rs),
                                      page_size = Some (page_page_size d)\<rparr>\<rparr>) w3;
                    w5 = (if shouldFetchCounters then snd (fetchCounters e w4) else w4)
                in (Returned (Some rs), w5)))"

definition keyed_filters :: "ChannelFilter list \<Rightarrow> (ident \<rightharpoonup> ChannelFilter)" where
  "keyed_filters response =
     foldl (\<lambda>acc channelFilter. acc(cf_id channelFilter \<mapsto> channelFilter)) Map.empty response"

definition fetchChannelFilters :: "env \<Rightarrow> ident \<Rightarrow> bool \<Rightarrow> world \<Rightarrow> unit outcome \<times> world" where
  "fetchChannelFilters e alertReceiveChannelId isOverwrite w =
     (let r = (req GET ''/channel_filters/'')
                \<lparr>params := [(''alert_receive_channel'', alertReceiveChannelId)]\<rparr>;
          w1 = emit (Request r) w
      in case filters_of (network e r) of
           None \<Rightarrow> (Threw RequestFailed, w1)
         | Some response \<Rightarrow>
             (let fs = keyed_filters response;
                  w2 = runInAction ChannelFilters
                         (\<lambda>s. s\<lparr>channelFilters := channelFilters s ++ fs\<rparr>) w1;
                  w3 = (if isOverwrite
                        then runInAction ChannelFilters (\<lambda>s. s\<lparr>channelFilters := fs\<rparr>) w2
                        else w2);
                  w4 = runInAction ChannelFilterIds
                         (\<lambda>s. s\<lparr>channelFilterIds :=
                                   (channelFilterIds s)
                                     (alertReceiveChannelId \<mapsto> map cf_id response)\<rparr>) w3
              in (Returned (), w4)))"

definition saveChannelFilter ::
  "env \<Rightarrow> ident \<Rightarrow> string \<Rightarrow> world \<Rightarrow> ChannelFilter outcome \<times> world" where
  "saveChannelFilter e channelFilterId data w =
     (let r = (req PUT (''/channel_filters/'' @ channelFilterId @ ''/''))\<lparr>body := Data data\<rparr>;
          w1 = emit (Request r) w
      in case filter_of (network e r) of
           None \<Rightarrow> (Threw RequestFailed, w1)
         | Some response \<Rightarrow>
             (Returned response,
              runInAction ChannelFilters
                (\<lambda>s. s\<lparr>channelFilters := (channelFilters s)(cf_id response \<mapsto> response)\<rparr>) w1))"

text \<open>
  Reading \<^verbatim>\<open>this.channelFilterIds[alertReceiveChannelId][oldIndex]\<close> throws a TypeError
  when the store has no list for the parent. The response of the PUT is not read.
\<close>

definition moveChannelFilterToPosition ::
  "env \<Rightarrow> ident \<Rightarrow> int \<Rightarrow> int \<Rightarrow> world \<Rightarrow> unit outcome \<times> world" where
  "moveChannelFilterToPosition e alertReceiveChannelId oldIndex newIndex w =
     (case channelFilterIds (st w) alertReceiveChannelId of
        None \<Rightarrow> (Threw TypeError, w)
      | Some ids \<Rightarrow>
          (let channelFilterId = js_index ids oldIndex;
               w1 = assign ChannelFilterIds
                      (\<lambda>s. s\<lparr>channelFilterIds :=
                                (channelFilterIds s)
                                  (alertReceiveChannelId \<mapsto> move e ids oldIndex newIndex)\<rparr>) w;
               r = req PUT (''/channel_filters/'' @ template_ident channelFilterId
                            @ ''/move_to_position/?position='' @ number_text e newIndex);
               w2 = emit (Request r) w1
           in case network e r of
                None \<Rightarrow> (Threw RequestFailed, w2)
              | Some _ \<Rightarrow>
                  (Returned (), snd (fetchChannelFilters e alertReceiveChannelId True w2))))"

text \<open>
  Reading \<^verbatim>\<open>channelFilter.alert_receive_channel\<close> throws a TypeError when the store does
  not hold the filter, and so does calling splice when it has no list for the parent.
  splice changes the list in place. The response of the DELETE is not read.
\<close>

definition deleteChannelFilter :: "env \<Rightarrow> ident \<Rightarrow> world \<Rightarrow> unit outcome \<times> world" where
  "deleteChannelFilter e channelFilterId w =
     (case channelFilters (st w) channelFilterId of
        None \<Rightarrow> (Threw TypeError, w)
      | Some channelFilter \<Rightarrow>
          (case channelFilterIds (st w) (alert_receive_channel channelFilter) of
             None \<Rightarrow> (Threw TypeError, w)
           | Some ids \<Rightarrow>
               (let w1 = assign ChannelFilterIds
                           (\<lambda>s. s\<lparr>channelFilterIds :=
                                     (channelFilterIds s)
                                       (alert_receive_channel channelFilter \<mapsto>
                                          splice_one ids (indexOf ids channelFilterId))\<rparr>) w;
                    r = req DELETE (''/channel_filters/'' @ channelFilterId);
                    w2 = emit (Request r) w1
                in case network e r of
                     None \<Rightarrow> (Threw RequestFailed, w2)
                   | Some _ \<Rightarrow>
                       fetchChannelFilters e (alert_receive_channel channelFilter) True w2)))"

definition fetchAlertReceiveChannelOptions :: "env \<Rightarrow> world \<Rightarrow> unit outcome \<times> world" where
  "fetchAlertReceiveChannelOptions e w =
     (let r = req GET ''/alert_receive_channels/integration_options/'';
          w1 = emit (Request r) w
      in case options_of (network e r) of
           None \<Rightarrow> (Threw RequestFailed, w1)
         | Some d \<Rightarrow>
             (Returned (),
              runInAction AlertReceiveChannelOptions
                (\<lambda>s. s\<lparr>alertReceiveChannelOptions := d\<rparr>) w1))"

text \<open>
  The body is built from the integration the store holds before the request is made:
  reading a property of \<^verbatim>\<open>this.items[id]\<close> throws a TypeError when it is not there.
\<close>

definition saveAlertReceiveChannel ::
  "env \<Rightarrow> ident \<Rightarrow> string \<Rightarrow> world \<Rightarrow> unit outcome \<times> world" where
  "saveAlertReceiveChannel e i payload w =
     (case items (st w) i of
        None \<Rightarrow> (Threw TypeError, w)
      | Some currentIntegration \<Rightarrow>
          (let r = (req PUT (''/alert_receive_channels/'' @ i @ ''/''))
                     \<lparr>body := IntegrationData
                                (description_short currentIntegration)
                                (verbal_name currentIntegration)
                                (allow_source_based_resolving currentIntegration)
                                (alert_group_labels currentIntegration)
                                payload\<rparr>;
               w1 = emit (Request r) w
           in case channel_of (network e r) of
                None \<Rightarrow> (Threw RequestFailed, w1)
              | Some d \<Rightarrow>
                  (Returned (),
                   runInAction Items (\<lambda>s. s\<lparr>items := (items s)(i \<mapsto> d)\<rparr>) w1)))"

definition fetchTemplates ::
  "env \<Rightarrow> ident \<Rightarrow> ident option \<Rightarrow> world \<Rightarrow> unit outcome \<times> world" where
  "fetchTemplates e alertReceiveChannelId alertGroupId w =
     (let r = (req GET (''/alert_receive_channel_templates/'' @ alertReceiveChannelId @ ''/''))
                \<lparr>params := (case alertGroupId of None \<Rightarrow> []
                             | Some g \<Rightarrow> [(''alert_group_id'', g)]),
                 withCredentials := True\<rparr>;
          w1 = emit (Request r) w
      in case templates_of (network e r) of
           None \<Rightarrow> (Threw RequestFailed, w1)
         | Some response \<Rightarrow>
             (Returned (),
              runInAction Templates
                (\<lambda>s. s\<lparr>templates := (templates s)(alertReceiveChannelId \<mapsto> response)\<rparr>) w1))"

definition saveTemplates ::
  "env \<Rightarrow> ident \<Rightarrow> string \<Rightarrow> world \<Rightarrow> unit outcome \<times> world" where
  "saveTemplates e alertReceiveChannelId data w =
     (let r = (req PUT (''/alert_receive_channel_templates/'' @ alertReceiveChannelId @ ''/''))
                \<lparr>body := Data data, withCredentials := True\<rparr>;
          w1 = emit (Request r) w
      in case templates_of (network e r) of
           None \<Rightarrow> (Threw RequestFailed, w1)
         | Some response \<Rightarrow>
             (Returned (),
              runInAction Templates
                (\<lambda>s. s\<lparr>templates := (templates s)(alertReceiveChannelId \<mapsto> response)\<rparr>) w1))"

definition contact_points_list :: "contact_points_payload list \<Rightarrow> ContactPoint list" where
  "contact_points_list d =
     foldl (\<lambda>list payload.
              list @ map (\<lambda>cp. \<lparr>dataSourceName = ds_name payload,
                                dataSourceId = ds_uid payload,
                                contactPoint = cp_name cp,
                                notificationConnected = notification_connected cp\<rparr>)
                         (contact_points payload))
       [] d"

definition fetchConnectedContactPoints :: "env \<Rightarrow> ident \<Rightarrow> world \<Rightarrow> unit outcome \<times> world" where
  "fetchConnectedContactPoints e alertReceiveChannelId w =
     (let r = req GET (''/alert_receive_channels/'' @ alertReceiveChannelId
                       @ ''/connected_contact_points/'');
          w1 = emit (Request r) w
      in case contact_points_of (network e r) of
           None \<Rightarrow> (Threw RequestFailed, w1)
         | Some d \<Rightarrow>
             (Returned (),
              runInAction ConnectedContactPoints
                (\<lambda>s. s\<lparr>connectedContactPoints :=
                          (connectedContactPoints s)
                            (alertReceiveChannelId \<mapsto> contact_points_list d)\<rparr>) w1))"

text \<open>\<^verbatim>\<open>{...data[id]}\<close> is the empty object when the response has no entry for the id.\<close>

definition fetchCountersForIntegration ::
  "env \<Rightarrow> ident \<Rightarrow> world \<Rightarrow> (ident \<rightharpoonup> AlertReceiveChannelCounters) outcome \<times> world" where
  "fetchCountersForIntegration e i w =
     (let r = req GET (''/alert_receive_channels/'' @ i @ ''/counters/'');
          w1 = emit (Request r) w
      in case counters_of (network e r) of
           None \<Rightarrow> (Threw RequestFailed, w1)
         | Some d \<Rightarrow>
             (Returned d,
              runInAction Counters
                (\<lambda>s. s\<lparr>counters :=
                          (counters s)(i \<mapsto> (case d i of None \<Rightarrow> [] | Some c \<Rightarrow> c))\<rparr>) w1))"

text \<open>The operations of the store, one for each method of the class, and the world
  each leaves. populateHearbeats is the only one that is not asynchronous.\<close>

datatype operation =
    Create AlertReceiveChannel bool
  | Update ident AlertReceiveChannel bool
  | FetchItemById ident bool
  | FetchItems query
  | FetchPaginatedItems "(string \<times> string) list" int bool "bool option"
  | PopulateHearbeats "AlertReceiveChannel list"
  | FetchChannelFilters ident bool
  | SaveChannelFilter ident string
  | MoveChannelFilterToPosition ident int int
  | DeleteChannelFilter ident
  | FetchAlertReceiveChannelOptions
  | SaveAlertReceiveChannel ident string
  | FetchTemplates ident "ident option"
  | SaveTemplates ident string
  | FetchConnectedContactPoints ident
  | FetchCounters
  | FetchCountersForIntegration ident

fun exec :: "env \<Rightarrow> operation \<Rightarrow> world \<Rightarrow> world" where
  "exec e (Create data skip) w = snd (create e data skip w)"
| "exec e (Update i data skip) w = snd (update e i data skip w)"
| "exec e (FetchItemById i skip) w = snd (fetchItemById e i skip w)"
| "exec e (FetchItems q) w = snd (fetchItems e q w)"
| "exec e (FetchPaginatedItems filters page c invalidateFn) w =
     snd (fetchPaginatedItems e filters page c invalidateFn w)"
| "exec e (PopulateHearbeats alertReceiveChannels) w = populateHearbeats alertReceiveChannels w"
| "exec e (FetchChannelFilters i ov) w = snd (fetchChannelFilters e i ov w)"
| "exec e (SaveChannelFilter i data) w = snd (saveChannelFilter e i data w)"
| "exec e (MoveChannelFilterToPosition i old new) w =
     snd (moveChannelFilterToPosition e i old new w)"
| "exec e (DeleteChannelFilter i) w = snd (deleteChannelFilter e i w)"
| "exec e FetchAlertReceiveChannelOptions w = snd (fetchAlertReceiveChannelOptions e w)"
| "exec e (SaveAlertReceiveChannel i payload) w = snd (saveAlertReceiveChannel e i payload w)"
| "exec e (FetchTemplates i g) w = snd (fetchTemplates e i g w)"
| "exec e (SaveTemplates i data) w = snd (saveTemplates e i data w)"
| "exec e (FetchConnectedContactPoints i) w = snd (fetchConnectedContactPoints e i w)"
| "exec e FetchCounters w = snd (fetchCounters e w)"
| "exec e (FetchCountersForIntegration i) w = snd (fetchCountersForIntegration e i w)"

section \<open>Concrete stores, servers and helpers\<close>

text \<open>
  Modelled from the spec: the helper move of state/helpers is not among the sources. The
  spec calls the step a local array splice, an in-memory list move: the element at
  oldIndex is taken out and put back in at newIndex. Outside the range of the array the
  spec says nothing, and the list is left as it is. The operations take the helper from
  the environment; this one serves where a concrete environment is needed and where a
  property says what the helper returns.
\<close>

definition move_by_splice :: "ident list \<Rightarrow> int \<Rightarrow> int \<Rightarrow> ident list" where
  "move_by_splice xs oldIndex newIndex =
     (if 0 \<le> oldIndex \<and> oldIndex < int (length xs) \<and> 0 \<le> newIndex \<and> newIndex < int (length xs)
      then (let x = xs ! nat oldIndex; ys = splice_one xs oldIndex
            in take (nat newIndex) ys @ x # drop (nat newIndex) ys)
      else xs)"

definition filter1 :: ChannelFilter where
  "filter1 = \<lparr>cf_id = ''F1'', alert_receive_channel = ''A'', cf_data = ''x''\<rparr>"

definition filter2 :: ChannelFilter where
  "filter2 = \<lparr>cf_id = ''F2'', alert_receive_channel = ''A'', cf_data = ''y''\<rparr>"

definition filter3 :: ChannelFilter where
  "filter3 = \<lparr>cf_id = ''F3'', alert_receive_channel = ''B'', cf_data = ''z''\<rparr>"

definition beat1 :: Heartbeat where
  "beat1 = \<lparr>hb_id = ''H1'', hb_data = ''''\<rparr>"

definition channel1 :: AlertReceiveChannel where
  "channel1 = \<lparr>arc_id = ''A'', heartbeat = Present beat1, description_short = ''d'',
                verbal_name = ''n'', allow_source_based_resolving = False,
                alert_group_labels = ''''\<rparr>"

definition channel2 :: AlertReceiveChannel where
  "channel2 = \<lparr>arc_id = ''B'', heartbeat = Missing, description_short = '''',
                verbal_name = ''m'', allow_source_based_resolving = True,
                alert_group_labels = ''''\<rparr>"

text \<open>A server that answers every request, each endpoint with its declared type.\<close>

definition server :: "request \<Rightarrow> response option" where
  "server r =
     (if path r = ''/channel_filters/'' then Some (RFilters [filter2, filter1])
      else if path r = ''/channel_filters/F1/'' then Some (RFilter filter1)
      else if path r = ''/alert_receive_channels/''
        then (if verb r = POST then Some (RChannel channel1)
              else Some (RPage \<lparr>page_count = 2, page_results = [channel1, channel2],
                                page_page_size = 25\<rparr>))
      else if path r = ''/alert_receive_channels/A/'' then Some (RChannel channel1)
      else if path r = ''/alert_receive_channels/B/'' then Some (RChannel channel2)
      else if path r = ''/alert_receive_channels/counters/''
        then Some (RCounters [''A'' \<mapsto> [(''alerts_count'', 1)]])
      else Some RAny)"

text \<open>The concrete environments are run on safe integers only; for the others they
  print the exponent form of \<open>10^21\<close>.\<close>

definition online :: env where
  "online = \<lparr>network = server, move = move_by_splice, loadCurrentOrganization = True,
              numberToString = (\<lambda>i. ''1e+21'')\<rparr>"


text \<open>A store that holds two routes of integration A, one of integration B and the
  counters of B.\<close>

definition store1 :: store where
  "store1 = initial_store
     \<lparr>counters := [''B'' \<mapsto> [(''alerts_count'', 2)]],
      channelFilterIds := [''A'' \<mapsto> [''F1'', ''F2''], ''B'' \<mapsto> [''F3'']],
      channelFilters := [''F1'' \<mapsto> filter1, ''F2'' \<mapsto> filter2, ''F3'' \<mapsto> filter3]\<rparr>"

definition world0 :: world where
  "world0 = \<lparr>st = initial_store, log = []\<rparr>"

definition world1 :: world where
  "world1 = \<lparr>st = store1, log = []\<rparr>"

section \<open>Reading a trace\<close>

text \<open>The requests of a trace, in the order issued, and the per-resource path of a channel
  filter as the REST API names it.\<close>

fun requests :: "event list \<Rightarrow> request list" where
  "requests [] = []"
| "requests (Request r # es) = r # requests es"
| "requests (RunInAction f # es) = requests es"
| "requests (Assign f # es) = requests es"
| "requests (Call c # es) = requests es"

definition per_resource_path :: "ident \<Rightarrow> string" where
  "per_resource_path i = ''/channel_filters/'' @ i @ ''/''"

section \<open>What a fetch leaves in the store\<close>

text \<open>
  Where the heartbeats of a list of channels \<open>cs\<close> are in the state \<open>s'\<close> that
  populateHearbeats leaves from \<open>s\<close>. A heartbeat that came with a channel of the list
  has its id as a key of the heartbeat store, holding a heartbeat of the list with that
  id, and the heartbeat itself when no other heartbeat of the list has its id. The id of
  a channel that came with a heartbeat is a key of alertReceiveChannelToHeartbeat,
  holding the heartbeat id of a channel of the list with that id, and that of the
  channel itself when the channel ids of the list are distinct. Both hold for every id
  but __proto__. Every other key of the two mappings holds what it held in \<open>s\<close>.
\<close>

definition heartbeats_stored :: "AlertReceiveChannel list \<Rightarrow> store \<Rightarrow> store \<Rightarrow> bool" where
  "heartbeats_stored cs s s' \<longleftrightarrow>
     (\<forall>c\<in>set cs. \<forall>h. heartbeat c = Present h \<and> hb_id h \<noteq> ''__proto__'' \<longrightarrow>
        (\<exists>c'\<in>set cs. \<exists>h'. heartbeat c' = Present h' \<and> hb_id h' = hb_id h
            \<and> heartbeatStore_items s' (hb_id h) = Some h'))
   \<and> (\<forall>c\<in>set cs. \<forall>h. heartbeat c = Present h \<and> hb_id h \<noteq> ''__proto__''
          \<and> (\<forall>c'\<in>set cs. \<forall>h'. heartbeat c' = Present h' \<and> hb_id h' = hb_id h \<longrightarrow> h' = h) \<longrightarrow>
        heartbeatStore_items s' (hb_id h) = Some h)
   \<and> (\<forall>k. k = ''__proto__'' \<or> (\<forall>c\<in>set cs. \<forall>h. heartbeat c = Present h \<longrightarrow> hb_id h \<noteq> k) \<longrightarrow>
        heartbeatStore_items s' k = heartbeatStore_items s k)
   \<and> (\<forall>c\<in>set cs. \<forall>h. heartbeat c = Present h \<and> arc_id c \<noteq> ''__proto__'' \<longrightarrow>
        (\<exists>c'\<in>set cs. \<exists>h'. arc_id c' = arc_id c \<and> heartbeat c' = Present h'
            \<and> alertReceiveChannelToHeartbeat s' (arc_id c) = Some (hb_id h')))
   \<and> (\<forall>c\<in>set cs. \<forall>h. heartbeat c = Present h \<and> arc_id c \<noteq> ''__proto__''
          \<and> distinct (map arc_id cs) \<longrightarrow>
        alertReceiveChannelToHeartbeat s' (arc_id c) = Some (hb_id h))
   \<and> (\<forall>k. k = ''__proto__'' \<or> (\<forall>c\<in>set cs. \<forall>h. heartbeat c = Present h \<longrightarrow> arc_id c \<noteq> k) \<longrightarrow>
        alertReceiveChannelToHeartbeat s' k = alertReceiveChannelToHeartbeat s k)"

text \<open>
  The state \<open>s'\<close> after a fetch of the list \<open>rs\<close> from state \<open>s\<close>: every channel of the
  list is in items under its id, as a channel of the list with that id whose heartbeat
  property is gone; the other keys of items are untouched; and the heartbeats of the
  list are where populateHearbeats puts them.
\<close>

definition after_list_fetch :: "AlertReceiveChannel list \<Rightarrow> store \<Rightarrow> store \<Rightarrow> bool" where
  "after_list_fetch rs s s' \<longleftrightarrow>
     (\<forall>item\<in>set rs. \<exists>item'\<in>set rs. arc_id item' = arc_id item \<and>
         items s' (arc_id item) = Some (item'\<lparr>heartbeat := Missing\<rparr>))
   \<and> (\<forall>k. k \<notin> arc_id ` set rs \<longrightarrow> items s' k = items s k)
   \<and> heartbeats_stored rs s s'"

section \<open>Running one operation on a store\<close>

text \<open>An operation started on a store with an empty trace: the trace of the world it
  leaves is what the operation itself did.\<close>

definition run :: "env \<Rightarrow> operation \<Rightarrow> store \<Rightarrow> world" where
  "run e op s = exec e op \<lparr>st = s, log = []\<rparr>"


text \<open>The operations that reload the channel filters in overwrite mode, and those that
  fetch the counters of all integrations.\<close>

fun reloads_filters :: "operation \<Rightarrow> bool" where
  "reloads_filters (FetchChannelFilters i isOverwrite) = isOverwrite"
| "reloads_filters (MoveChannelFilterToPosition i old new) = True"
| "reloads_filters (DeleteChannelFilter i) = True"
| "reloads_filters _ = False"

fun refetches_counters :: "operation \<Rightarrow> bool" where
  "refetches_counters FetchCounters = True"
| "refetches_counters (FetchItems q) = True"
| "refetches_counters (FetchPaginatedItems filters page shouldFetchCounters invalidateFn) =
     shouldFetchCounters"
| "refetches_counters _ = False"



section \<open>Writes that follow the response\<close>




text \<open>A server that answers the requests to move a route and nothing else, so that a
  reload after a move fails.\<close>

definition move_only_server :: "request \<Rightarrow> response option" where
  "move_only_server r =
     (if path r = ''/channel_filters/F1/move_to_position/?position=1'' then Some RAny else None)"

definition move_only :: env where
  "move_only = \<lparr>network = move_only_server, move = move_by_splice,
                 loadCurrentOrganization = True, numberToString = (\<lambda>i. ''1e+21'')\<rparr>"

definition filter4 :: ChannelFilter where
  "filter4 = \<lparr>cf_id = ''F4'', alert_receive_channel = ''A'', cf_data = ''w''\<rparr>"

text \<open>A store in which integration A has three routes.\<close>

definition store2 :: store where
  "store2 = initial_store
     \<lparr>channelFilterIds := [''A'' \<mapsto> [''F1'', ''F2'', ''F4''], ''B'' \<mapsto> [''F3'']],
      channelFilters := [''F1'' \<mapsto> filter1, ''F2'' \<mapsto> filter2, ''F3'' \<mapsto> filter3,
                         ''F4'' \<mapsto> filter4]\<rparr>"

definition world2 :: world where
  "world2 = \<lparr>st = store2, log = []\<rparr>"

section \<open>Properties of the route condition wording\<close>

text \<open>
  C1. For every array of channel filter ids and every route index,
  getRouteConditionWording classifies the route by its position: the result is
  'Default' when the index is the last position of the array (length - 1), 'If' when
  the index is 0 and not the last position, and 'Else' for every other index.
\<close>

theorem getRouteConditionWording_by_position:
  "getRouteConditionWording ids i =
     (if i = int (length ids) - 1 then ''Default''
      else if i = 0 then ''If'' else ''Else'')"
  by (simp add: getRouteConditionWording_def truthy_number_def)

text \<open>
  C8. For an array with exactly one element, getRouteConditionWording at index 0
  returns 'Default' and not 'If': the last-position rule is tested first.
\<close>

theorem getRouteConditionWording_single:
  "length ids = 1 \<Longrightarrow>
     getRouteConditionWording ids 0 = ''Default'' \<and> getRouteConditionWording ids 0 \<noteq> ''If''"
  by (simp add: getRouteConditionWording_def)

theorem getRouteConditionWording_single_witness:
  "length [''F1''] = 1 \<and> getRouteConditionWording [''F1''] 0 = ''Default''
     \<and> getRouteConditionWording [''F1''] 0 \<noteq> ''If''"
  using getRouteConditionWording_single [of "[''F1'']"] by simp

text \<open>
  C9. For every array of channel filter ids, every route index and every label list
  (also an undefined one), getRouteConditionTooltipWording returns the default-route
  sentence if and only if getRouteConditionWording returns 'Default' on the same array
  and index.
\<close>

theorem tooltip_default_iff_wording_default:
  "(getRouteConditionTooltipWording ids i labels =
      ''If the alert payload does not match to the previous routes, it will stick to the default route.'')
     = (getRouteConditionWording ids i = ''Default'')"
  by (simp add: getRouteConditionTooltipWording_def getRouteConditionWording_def)

section \<open>Reading the world after a step\<close>

lemma st_runInAction [simp]: "st (runInAction f u w) = u (st w)"
  by (simp add: runInAction_def)

lemma st_emit [simp]: "st (emit ev w) = st w"
  by (simp add: emit_def)

lemma st_assign [simp]: "st (assign f u w) = u (st w)"
  by (simp add: assign_def)

lemma log_runInAction [simp]: "log (runInAction f u w) = log w @ [RunInAction f]"
  by (simp add: runInAction_def)

lemma log_emit [simp]: "log (emit ev w) = log w @ [ev]"
  by (simp add: emit_def)

lemma log_assign [simp]: "log (assign f u w) = log w @ [Assign f]"
  by (simp add: assign_def)

section \<open>Objects built by reduce\<close>

text \<open>A reduce that spreads the accumulator and sets one computed key per element builds
  the map in which the last element with a key wins.\<close>

lemma foldl_keyed:
  "foldl (\<lambda>acc x. acc(k x \<mapsto> v x)) m xs = m ++ map_of (rev (map (\<lambda>x. (k x, v x)) xs))"
  by (induction xs arbitrary: m) simp_all

lemma keyed_filters_map_of:
  "keyed_filters fs = map_of (rev (map (\<lambda>f. (cf_id f, f)) fs))"
  by (simp add: keyed_filters_def foldl_keyed)

lemma dom_keyed_filters: "dom (keyed_filters fs) = cf_id ` set fs"
  by (simp add: keyed_filters_map_of dom_map_of_conv_image_fst image_image)

lemma keyed_filters_in_response:
  "keyed_filters fs k = Some f \<Longrightarrow> f \<in> set fs \<and> cf_id f = k"
  by (auto simp: keyed_filters_map_of dest!: map_of_SomeD)

lemma keyed_filters_distinct:
  "distinct (map cf_id fs) \<Longrightarrow> f \<in> set fs \<Longrightarrow> keyed_filters fs (cf_id f) = Some f"
  by (simp add: keyed_filters_map_of distinct_rev rev_map [symmetric] comp_def
      map_of_eq_Some_iff [where xys = "rev (map (\<lambda>f. (cf_id f, f)) fs)"])

lemma keyed_filters_present:
  assumes "f \<in> set fs"
  shows "\<exists>f'\<in>set fs. cf_id f' = cf_id f \<and> keyed_filters fs (cf_id f) = Some f'"
proof -
  from assms have "cf_id f \<in> dom (keyed_filters fs)"
    by (simp add: dom_keyed_filters)
  then obtain f' where "keyed_filters fs (cf_id f) = Some f'"
    by blast
  with keyed_filters_in_response [of fs "cf_id f" f'] show ?thesis
    by blast
qed

section \<open>Loading the channel filters of an integration\<close>

lemma fetchChannelFilters_state:
  "filters_of (network e ((req GET ''/channel_filters/'')
      \<lparr>params := [(''alert_receive_channel'', p)]\<rparr>)) = Some response \<Longrightarrow>
   st (snd (fetchChannelFilters e p ov w)) =
     (st w)\<lparr>channelFilters := (if ov then keyed_filters response
                                else channelFilters (st w) ++ keyed_filters response),
            channelFilterIds := (channelFilterIds (st w))(p \<mapsto> map cf_id response)\<rparr>"
  by (simp add: fetchChannelFilters_def Let_def)

text \<open>
  C7. After fetchChannelFilters(parentId) completes on a server response (in either
  mode), channelFilterIds[parentId] is the list of the ids of the response's channel
  filters in the order of the response, and every channel filter of the response has
  its id as a key of channelFilters; the entry under that key is a filter of the
  response with that id, and it is the filter itself when the ids of the response are
  distinct, as server-assigned identifiers are.
\<close>

theorem fetchChannelFilters_stores_response:
  assumes "network e ((req GET ''/channel_filters/'')
             \<lparr>params := [(''alert_receive_channel'', parentId)]\<rparr>) = Some (RFilters response)"
  shows "fst (fetchChannelFilters e parentId isOverwrite w) = Returned ()
     \<and> channelFilterIds (st (snd (fetchChannelFilters e parentId isOverwrite w))) parentId
         = Some (map cf_id response)
     \<and> (\<forall>f\<in>set response. \<exists>f'\<in>set response. cf_id f' = cf_id f \<and>
           channelFilters (st (snd (fetchChannelFilters e parentId isOverwrite w))) (cf_id f)
             = Some f')
     \<and> (distinct (map cf_id response) \<longrightarrow>
          (\<forall>f\<in>set response.
             channelFilters (st (snd (fetchChannelFilters e parentId isOverwrite w))) (cf_id f)
               = Some f))"
proof -
  from assms have r: "filters_of (network e ((req GET ''/channel_filters/'')
      \<lparr>params := [(''alert_receive_channel'', parentId)]\<rparr>)) = Some response"
    by simp
  have 1: "fst (fetchChannelFilters e parentId isOverwrite w) = Returned ()"
    using r by (simp add: fetchChannelFilters_def Let_def)
  have 2: "channelFilterIds (st (snd (fetchChannelFilters e parentId isOverwrite w))) parentId
         = Some (map cf_id response)"
    by (simp add: fetchChannelFilters_state [OF r])
  have cf: "channelFilters (st (snd (fetchChannelFilters e parentId isOverwrite w))) k
      = (if isOverwrite then keyed_filters response k
         else (channelFilters (st w) ++ keyed_filters response) k)" for k
    by (simp add: fetchChannelFilters_state [OF r])
  have 3: "\<exists>f'\<in>set response. cf_id f' = cf_id f \<and>
           channelFilters (st (snd (fetchChannelFilters e parentId isOverwrite w))) (cf_id f)
             = Some f'" if "f \<in> set response" for f
    using keyed_filters_present [OF that] by (auto simp: cf map_add_Some_iff)
  have 4: "channelFilters (st (snd (fetchChannelFilters e parentId isOverwrite w))) (cf_id f)
               = Some f" if "distinct (map cf_id response)" "f \<in> set response" for f
    using keyed_filters_distinct [OF that] by (simp add: cf map_add_Some_iff)
  from 1 2 3 4 show ?thesis by blast
qed

theorem fetchChannelFilters_stores_response_witness:
  "network online ((req GET ''/channel_filters/'')\<lparr>params := [(''alert_receive_channel'', ''A'')]\<rparr>)
     = Some (RFilters [filter2, filter1])
   \<and> channelFilterIds (st (snd (fetchChannelFilters online ''A'' False world1))) ''A''
       = Some [''F2'', ''F1'']
   \<and> channelFilters (st (snd (fetchChannelFilters online ''A'' False world1))) ''F1''
       = Some filter1
   \<and> channelFilters (st (snd (fetchChannelFilters online ''A'' False world1))) ''F2''
       = Some filter2"
  using fetchChannelFilters_stores_response [of online "''A''" "[filter2, filter1]" False world1]
  by (simp add: online_def server_def req_def filter1_def filter2_def)

section \<open>The modelled move helper\<close>

text \<open>Within the range of the list, the helper as modelled puts the element of oldIndex
  at newIndex, keeps the length, and leaves the other elements in their order: taking
  the moved element out again gives the list without the element of oldIndex.\<close>

lemma splice_one_in_range:
  "0 \<le> i \<Longrightarrow> i < int (length xs) \<Longrightarrow>
     splice_one xs i = take (nat i) xs @ drop (nat i + 1) xs"
  by (simp add: splice_one_def Let_def min_def)

lemma splice_one_inserted:
  "n \<le> length ys \<Longrightarrow> splice_one (take n ys @ x # drop n ys) (int n) = ys"
  by (simp add: splice_one_def Let_def min_def)

lemma move_by_splice_places:
  assumes "0 \<le> oldIndex" "oldIndex < int (length xs)" "0 \<le> newIndex" "newIndex < int (length xs)"
  shows "move_by_splice xs oldIndex newIndex ! nat newIndex = xs ! nat oldIndex
     \<and> length (move_by_splice xs oldIndex newIndex) = length xs
     \<and> splice_one (move_by_splice xs oldIndex newIndex) newIndex = splice_one xs oldIndex"
proof -
  let ?ys = "splice_one xs oldIndex"
  have len: "length ?ys = length xs - 1"
    using assms by (auto simp: splice_one_in_range)
  with assms have le: "nat newIndex \<le> length ?ys"
    by auto
  then have n: "length (take (nat newIndex) ?ys) = nat newIndex"
    by auto
  have mv: "move_by_splice xs oldIndex newIndex
              = take (nat newIndex) ?ys @ xs ! nat oldIndex # drop (nat newIndex) ?ys"
    using assms by (simp add: move_by_splice_def Let_def)
  have 1: "(take (nat newIndex) ?ys @ xs ! nat oldIndex # drop (nat newIndex) ?ys) ! nat newIndex
          = xs ! nat oldIndex"
    using nth_append_length [of "take (nat newIndex) ?ys"] n by simp
  have 2: "length (take (nat newIndex) ?ys @ xs ! nat oldIndex # drop (nat newIndex) ?ys)
          = length xs"
    using len assms by auto
  have 3: "splice_one (take (nat newIndex) ?ys @ xs ! nat oldIndex # drop (nat newIndex) ?ys)
             newIndex = ?ys"
    using splice_one_inserted [OF le, of "xs ! nat oldIndex"] assms by simp
  from 1 2 3 show ?thesis
    by (simp only: mv)
qed

section \<open>Requests and their order\<close>

lemma requests_append [simp]: "requests (xs @ ys) = requests xs @ requests ys"
  by (induction xs rule: requests.induct) simp_all

lemma js_index_in_range:
  "0 \<le> i \<Longrightarrow> i < int (length xs) \<Longrightarrow> js_index xs i = Some (xs ! nat i)"
  by (simp add: js_index_def)

lemma digits_small: "n < 10 \<Longrightarrow> digits n = [''0123456789'' ! n]"
  by (simp add: digits.simps)

lemma number_text_safe: "safe_integer i \<Longrightarrow> number_text e i = show_int i"
  by (simp add: number_text_def)

lemma fetchChannelFilters_log:
  "log (snd (fetchChannelFilters e p ov w)) =
     log w @ Request ((req GET ''/channel_filters/'')\<lparr>params := [(''alert_receive_channel'', p)]\<rparr>)
       # (case filters_of (network e ((req GET ''/channel_filters/'')
                \<lparr>params := [(''alert_receive_channel'', p)]\<rparr>)) of
            None \<Rightarrow> []
          | Some response \<Rightarrow>
              RunInAction ChannelFilters
                # (if ov then [RunInAction ChannelFilters] else []) @ [RunInAction ChannelFilterIds])"
  by (simp add: fetchChannelFilters_def Let_def split: option.splits)

lemma fetchChannelFilters_unanswered:
  "filters_of (network e ((req GET ''/channel_filters/'')
      \<lparr>params := [(''alert_receive_channel'', p)]\<rparr>)) = None \<Longrightarrow>
   st (snd (fetchChannelFilters e p ov w)) = st w"
  by (simp add: fetchChannelFilters_def Let_def)

text \<open>
  C2. moveChannelFilterToPosition(parentId, oldIndex, newIndex), on a store that holds
  the ordered list of parentId, with oldIndex and newIndex positions of that list, the
  helper move moving the element as the spec says, and a server that answers the PUT,
  performs exactly these steps in this order. First it assigns the moved list to
  channelFilterIds[parentId]: in it the id that was at oldIndex is at newIndex, the
  length is the same and the other ids keep their order. Then it issues the PUT request
  to /channel_filters/{id}/move_to_position/?position={newIndex} for the id that was at
  oldIndex. Then it requests the channel filters of parentId and, when that request is
  answered, overwrites: channelFilters becomes exactly the filters of the response keyed
  by id and channelFilterIds[parentId] the ids of the response in its order. When the
  reload is not answered the store keeps the moved list and is otherwise unchanged. The
  trace shows the assignment, the PUT, the GET and the writes of the reload in that
  order and nothing else.
\<close>

theorem moveChannelFilterToPosition_steps:
  assumes ids: "channelFilterIds (st w) parentId = Some ids"
    and old: "0 \<le> oldIndex" "oldIndex < int (length ids)"
    and new: "0 \<le> newIndex" "newIndex < int (length ids)"
    and safe: "safe_integer newIndex"
    and helper: "move e ids oldIndex newIndex = move_by_splice ids oldIndex newIndex"
    and put: "network e (req PUT (''/channel_filters/'' @ ids ! nat oldIndex
           @ ''/move_to_position/?position='' @ show_int newIndex)) = Some answer"
  shows "fst (moveChannelFilterToPosition e parentId oldIndex newIndex w) = Returned ()
   \<and> log (snd (moveChannelFilterToPosition e parentId oldIndex newIndex w)) =
         log w @
           [Assign ChannelFilterIds,
            Request (req PUT (''/channel_filters/'' @ ids ! nat oldIndex
              @ ''/move_to_position/?position='' @ show_int newIndex)),
            Request ((req GET ''/channel_filters/'')
              \<lparr>params := [(''alert_receive_channel'', parentId)]\<rparr>)]
           @ (case filters_of (network e ((req GET ''/channel_filters/'')
                     \<lparr>params := [(''alert_receive_channel'', parentId)]\<rparr>)) of
                None \<Rightarrow> []
              | Some response \<Rightarrow>
                  [RunInAction ChannelFilters, RunInAction ChannelFilters,
                   RunInAction ChannelFilterIds])
   \<and> move_by_splice ids oldIndex newIndex ! nat newIndex = ids ! nat oldIndex
   \<and> length (move_by_splice ids oldIndex newIndex) = length ids
   \<and> splice_one (move_by_splice ids oldIndex newIndex) newIndex = splice_one ids oldIndex
   \<and> (filters_of (network e ((req GET ''/channel_filters/'')
           \<lparr>params := [(''alert_receive_channel'', parentId)]\<rparr>)) = None \<longrightarrow>
        st (snd (moveChannelFilterToPosition e parentId oldIndex newIndex w)) =
          (st w)\<lparr>channelFilterIds :=
                   (channelFilterIds (st w))
                     (parentId \<mapsto> move_by_splice ids oldIndex newIndex)\<rparr>)
   \<and> (network e ((req GET ''/channel_filters/'')
           \<lparr>params := [(''alert_receive_channel'', parentId)]\<rparr>) = Some (RFilters response) \<longrightarrow>
        st (snd (moveChannelFilterToPosition e parentId oldIndex newIndex w)) =
          (st w)\<lparr>channelFilterIds :=
                   (channelFilterIds (st w))(parentId \<mapsto> map cf_id response),
                 channelFilters := keyed_filters response\<rparr>
        \<and> dom (channelFilters
                 (st (snd (moveChannelFilterToPosition e parentId oldIndex newIndex w))))
            = cf_id ` set response)"
proof -
  let ?put = "req PUT (''/channel_filters/'' @ ids ! nat oldIndex
           @ ''/move_to_position/?position='' @ show_int newIndex)"
  let ?get = "(req GET ''/channel_filters/'')\<lparr>params := [(''alert_receive_channel'', parentId)]\<rparr>"
  let ?moved = "(st w)\<lparr>channelFilterIds :=
                 (channelFilterIds (st w))(parentId \<mapsto> move_by_splice ids oldIndex newIndex)\<rparr>"
  let ?w2 = "\<lparr>st = ?moved, log = log w @ [Assign ChannelFilterIds, Request ?put]\<rparr>"
  let ?w' = "snd (moveChannelFilterToPosition e parentId oldIndex newIndex w)"
  have eq: "moveChannelFilterToPosition e parentId oldIndex newIndex w =
     (Returned (), snd (fetchChannelFilters e parentId True ?w2))"
    using ids old safe helper put
    by (simp add: moveChannelFilterToPosition_def Let_def js_index_in_range
        template_ident_def assign_def emit_def number_text_safe)
  have 1: "fst (moveChannelFilterToPosition e parentId oldIndex newIndex w) = Returned ()"
    by (simp add: eq)
  have 2: "log ?w' = log w @ [Assign ChannelFilterIds, Request ?put, Request ?get]
           @ (case filters_of (network e ?get) of
                None \<Rightarrow> []
              | Some response \<Rightarrow>
                  [RunInAction ChannelFilters, RunInAction ChannelFilters,
                   RunInAction ChannelFilterIds])"
    by (simp add: eq fetchChannelFilters_log split: option.splits)
  have 4: "st ?w' = ?moved" if "filters_of (network e ?get) = None"
    by (simp add: eq fetchChannelFilters_unanswered [OF that])
  have 5: "st ?w' = (st w)\<lparr>channelFilterIds :=
                   (channelFilterIds (st w))(parentId \<mapsto> map cf_id response),
                 channelFilters := keyed_filters response\<rparr>
        \<and> dom (channelFilters (st ?w')) = cf_id ` set response"
    if "network e ?get = Some (RFilters response)"
  proof -
    from that have r: "filters_of (network e ?get) = Some response" by simp
    show ?thesis
      by (simp add: eq fetchChannelFilters_state [OF r] dom_keyed_filters)
  qed
  from 1 2 4 5 move_by_splice_places [OF old new] show ?thesis
    by blast
qed

theorem moveChannelFilterToPosition_steps_witness:
  "channelFilterIds (st world2) ''A'' = Some [''F1'', ''F2'', ''F4'']
   \<and> safe_integer 1
   \<and> move move_only [''F1'', ''F2'', ''F4''] 0 1 = move_by_splice [''F1'', ''F2'', ''F4''] 0 1
   \<and> network move_only (req PUT ''/channel_filters/F1/move_to_position/?position=1'') = Some RAny
   \<and> network online (req PUT ''/channel_filters/F1/move_to_position/?position=1'') = Some RAny
   \<and> filters_of (network move_only ((req GET ''/channel_filters/'')
         \<lparr>params := [(''alert_receive_channel'', ''A'')]\<rparr>)) = None
   \<and> network online ((req GET ''/channel_filters/'')
         \<lparr>params := [(''alert_receive_channel'', ''A'')]\<rparr>) = Some (RFilters [filter2, filter1])
   \<and> move_by_splice [''F1'', ''F2'', ''F4''] 0 1 = [''F2'', ''F1'', ''F4'']
   \<and> channelFilterIds (st (snd (moveChannelFilterToPosition move_only ''A'' 0 1 world2))) ''A''
       = Some [''F2'', ''F1'', ''F4'']
   \<and> channelFilters (st (snd (moveChannelFilterToPosition move_only ''A'' 0 1 world2)))
       = channelFilters store2
   \<and> map path (requests (log (snd (moveChannelFilterToPosition move_only ''A'' 0 1 world2))))
       = [''/channel_filters/F1/move_to_position/?position=1'', ''/channel_filters/'']
   \<and> channelFilterIds (st (snd (moveChannelFilterToPosition online ''A'' 0 1 world2))) ''A''
       = Some [''F2'', ''F1'']
   \<and> channelFilters (st (snd (moveChannelFilterToPosition online ''A'' 0 1 world2))) ''F4''
       = None
   \<and> log (snd (moveChannelFilterToPosition online ''A'' 0 1 world2))
       = [Assign ChannelFilterIds,
          Request (req PUT ''/channel_filters/F1/move_to_position/?position=1''),
          Request ((req GET ''/channel_filters/'')\<lparr>params := [(''alert_receive_channel'', ''A'')]\<rparr>),
          RunInAction ChannelFilters, RunInAction ChannelFilters, RunInAction ChannelFilterIds]"
  using moveChannelFilterToPosition_steps
      [of world2 "''A''" "[''F1'', ''F2'', ''F4'']" 0 1 move_only RAny "[]"]
    moveChannelFilterToPosition_steps
      [of world2 "''A''" "[''F1'', ''F2'', ''F4'']" 0 1 online RAny "[filter2, filter1]"]
  by (simp add: world2_def store2_def initial_store_def online_def server_def move_only_def
      move_only_server_def req_def safe_integer_def show_int_def digits_small
      move_by_splice_def splice_one_def keyed_filters_def Let_def filter1_def filter2_def)

section \<open>The paths of channel filter requests\<close>

text \<open>
  C6, as stated, fails: every per-resource channel filter request would target exactly
  /channel_filters/{id}/. On a store that holds route F1 of integration A, moving F1
  requests /channel_filters/F1/move_to_position/?position=1 and deleting F1 requests
  /channel_filters/F1, and neither is /channel_filters/F1/.
\<close>

theorem channel_filter_paths_counterexample:
  "map path (requests (log (snd (moveChannelFilterToPosition online ''A'' 0 1 world1))))
     = [''/channel_filters/F1/move_to_position/?position=1'', ''/channel_filters/'']
   \<and> ''/channel_filters/F1/move_to_position/?position=1'' \<noteq> per_resource_path ''F1''
   \<and> map path (requests (log (snd (deleteChannelFilter online ''F1'' world1))))
     = [''/channel_filters/F1'', ''/channel_filters/'']
   \<and> ''/channel_filters/F1'' \<noteq> per_resource_path ''F1''"
  by (simp add: moveChannelFilterToPosition_def deleteChannelFilter_def fetchChannelFilters_log
      world1_def store1_def initial_store_def online_def server_def req_def Let_def
      js_index_def template_ident_def number_text_def safe_integer_def show_int_def digits_small per_resource_path_def
      filter1_def)

text \<open>
  C6, amended. saveChannelFilter issues one request, a PUT to exactly
  /channel_filters/{id}/ built from the channel filter id, with the trailing slash.
  moveChannelFilterToPosition, when the store holds the list of the parent, oldIndex is
  a position of it and newIndex is a safe integer (as every array position is), first
  requests a PUT to that same per-resource path of the id at oldIndex, trailing slash
  included, extended by move_to_position/?position={newIndex} with newIndex in decimal
  digits; the only other request it issues is the reload of the collection
  /channel_filters/.
\<close>

theorem channel_filter_paths:
  "requests (log (snd (saveChannelFilter e i data w)))
     = requests (log w) @ [(req PUT (per_resource_path i))\<lparr>body := Data data\<rparr>]
   \<and> (channelFilterIds (st w) p = Some ids \<and> 0 \<le> oldIndex \<and> oldIndex < int (length ids)
        \<and> safe_integer newIndex \<longrightarrow>
        (\<exists>reload. requests (log (snd (moveChannelFilterToPosition e p oldIndex newIndex w)))
           = requests (log w)
             @ req PUT (per_resource_path (ids ! nat oldIndex)
                        @ ''move_to_position/?position='' @ show_int newIndex) # reload
           \<and> (\<forall>r\<in>set reload. path r = ''/channel_filters/'')))"
proof -
  have save: "requests (log (snd (saveChannelFilter e i data w)))
     = requests (log w) @ [(req PUT (per_resource_path i))\<lparr>body := Data data\<rparr>]"
    by (simp add: saveChannelFilter_def Let_def per_resource_path_def split: option.splits)
  have mv: "\<exists>reload. requests (log (snd (moveChannelFilterToPosition e p oldIndex newIndex w)))
           = requests (log w)
             @ req PUT (per_resource_path (ids ! nat oldIndex)
                        @ ''move_to_position/?position='' @ show_int newIndex) # reload
           \<and> (\<forall>r\<in>set reload. path r = ''/channel_filters/'')"
    if "channelFilterIds (st w) p = Some ids" "0 \<le> oldIndex" "oldIndex < int (length ids)"
      "safe_integer newIndex"
    using that
    by (simp add: moveChannelFilterToPosition_def Let_def js_index_in_range template_ident_def
        per_resource_path_def fetchChannelFilters_log req_def number_text_safe
        split: option.splits)
  from save mv show ?thesis by blast
qed

theorem channel_filter_paths_witness:
  "channelFilterIds (st world1) ''A'' = Some [''F1'', ''F2'']
   \<and> safe_integer 1
   \<and> map path (requests (log (snd (saveChannelFilter online ''F1'' ''{}'' world1))))
       = [''/channel_filters/F1/'']
   \<and> map path (requests (log (snd (moveChannelFilterToPosition online ''A'' 0 1 world1))))
       = [''/channel_filters/F1/move_to_position/?position=1'', ''/channel_filters/'']"
  using channel_filter_paths [of online "''F1''" "''{}''" world1 "''A''" "[''F1'', ''F2'']" 0 1]
  by (simp add: moveChannelFilterToPosition_def fetchChannelFilters_log
      world1_def store1_def initial_store_def online_def server_def req_def Let_def
      js_index_def template_ident_def number_text_def safe_integer_def show_int_def digits_small per_resource_path_def
      filter1_def)

section \<open>Creating an integration\<close>

text \<open>
  C5, as stated, fails: after a successful create call the new channel would be in
  items under its server-assigned id. On the empty store, with a server that answers
  the POST with channel A, create returns channel A and items has no entry for A.
\<close>

theorem create_items_counterexample:
  "fst (create online channel1 False world0) = Returned channel1
   \<and> items (st (snd (create online channel1 False world0))) (arc_id channel1) = None"
  by (simp add: create_def Let_def online_def server_def req_def world0_def initial_store_def)

text \<open>
  C5, amended. A create call never changes the store: items and every other field are
  as before. When the POST is answered and the organization reload resolves, create
  returns the created channel, the data of the response, to its caller.
\<close>

theorem create_leaves_store:
  "st (snd (create e data skip w)) = st w
   \<and> (network e ((req POST ''/alert_receive_channels/'')
          \<lparr>body := ChannelData data, skipErrorHandling := skip\<rparr>) = Some (RChannel created)
        \<and> loadCurrentOrganization e
      \<longrightarrow> fst (create e data skip w) = Returned created)"
  by (simp add: create_def Let_def split: option.splits)

theorem create_leaves_store_witness:
  "network online ((req POST ''/alert_receive_channels/'')
          \<lparr>body := ChannelData channel1, skipErrorHandling := False\<rparr>) = Some (RChannel channel1)
   \<and> loadCurrentOrganization online
   \<and> fst (create online channel1 False world0) = Returned channel1
   \<and> st (snd (create online channel1 False world0)) = initial_store"
  using create_leaves_store [of online channel1 False world0 channel1]
  by (simp add: online_def server_def req_def world0_def)

section \<open>Heartbeats of fetched integrations\<close>

lemma keyed_without_heartbeat_map_of:
  "keyed_without_heartbeat rs = map_of (rev (map (\<lambda>c. (arc_id c, omit_heartbeat c)) rs))"
  by (simp add: keyed_without_heartbeat_def foldl_keyed)

lemma dom_keyed_without_heartbeat: "dom (keyed_without_heartbeat rs) = arc_id ` set rs"
  by (simp add: keyed_without_heartbeat_map_of dom_map_of_conv_image_fst image_image)

lemma keyed_without_heartbeat_Some:
  "keyed_without_heartbeat rs k = Some c \<Longrightarrow>
     \<exists>item\<in>set rs. arc_id item = k \<and> c = item\<lparr>heartbeat := Missing\<rparr>"
  by (auto simp: keyed_without_heartbeat_map_of omit_heartbeat_def dest!: map_of_SomeD)

lemma keyed_without_heartbeat_present:
  assumes "item \<in> set rs"
  shows "\<exists>item'\<in>set rs. arc_id item' = arc_id item \<and>
           keyed_without_heartbeat rs (arc_id item) = Some (item'\<lparr>heartbeat := Missing\<rparr>)"
proof -
  from assms have "arc_id item \<in> dom (keyed_without_heartbeat rs)"
    by (simp add: dom_keyed_without_heartbeat)
  then obtain c where "keyed_without_heartbeat rs (arc_id item) = Some c"
    by blast
  with keyed_without_heartbeat_Some [of rs "arc_id item" c] show ?thesis
    by blast
qed

lemma foldl_heartbeats_present:
  "c \<in> set cs \<Longrightarrow> heartbeat c = Present h \<Longrightarrow> hb_id h \<noteq> ''__proto__'' \<Longrightarrow>
     \<exists>c'\<in>set cs. \<exists>h'. heartbeat c' = Present h' \<and> hb_id h' = hb_id h \<and>
        foldl (\<lambda>acc c. case heartbeat c of Present h \<Rightarrow> set_property acc (hb_id h) h
                        | _ \<Rightarrow> acc) m cs (hb_id h) = Some h'"
proof (induction cs rule: rev_induct)
  case Nil
  then show ?case by simp
next
  case (snoc x xs)
  show ?case
  proof (cases "\<exists>hx. heartbeat x = Present hx \<and> hb_id hx = hb_id h")
    case True
    then obtain hx where "heartbeat x = Present hx" "hb_id hx = hb_id h" by blast
    with snoc.prems(3) show ?thesis
      by (intro bexI [of _ x] exI [of _ hx]) (simp_all add: set_property_def)
  next
    case False
    with snoc.prems have "c \<in> set xs" by auto
    from snoc.IH [OF this snoc.prems(2,3)] obtain c' h' where
      "c' \<in> set xs" "heartbeat c' = Present h'" "hb_id h' = hb_id h"
      "foldl (\<lambda>acc c. case heartbeat c of Present h \<Rightarrow> set_property acc (hb_id h) h
                        | _ \<Rightarrow> acc) m xs (hb_id h) = Some h'"
      by blast
    with False show ?thesis
      by (intro bexI [of _ c'] exI [of _ h'])
         (auto simp: set_property_def split: optional.splits)
  qed
qed

lemma foldl_heartbeats_frame:
  "k = ''__proto__'' \<or> (\<forall>c\<in>set cs. \<forall>h. heartbeat c = Present h \<longrightarrow> hb_id h \<noteq> k) \<Longrightarrow>
     foldl (\<lambda>acc c. case heartbeat c of Present h \<Rightarrow> set_property acc (hb_id h) h
                     | _ \<Rightarrow> acc) m cs k = m k"
  by (induction cs rule: rev_induct) (auto simp: set_property_def split: optional.splits)

lemma foldl_toHeartbeat_present:
  "c \<in> set cs \<Longrightarrow> heartbeat c = Present h \<Longrightarrow> arc_id c \<noteq> ''__proto__'' \<Longrightarrow>
     \<exists>c'\<in>set cs. \<exists>h'. arc_id c' = arc_id c \<and> heartbeat c' = Present h' \<and>
        foldl (\<lambda>acc c. case heartbeat c of
                          Present h \<Rightarrow> set_property acc (arc_id c) (hb_id h)
                        | _ \<Rightarrow> acc) m cs (arc_id c) = Some (hb_id h')"
proof (induction cs rule: rev_induct)
  case Nil
  then show ?case by simp
next
  case (snoc x xs)
  show ?case
  proof (cases "\<exists>hx. heartbeat x = Present hx \<and> arc_id x = arc_id c")
    case True
    then obtain hx where "heartbeat x = Present hx" "arc_id x = arc_id c" by blast
    with snoc.prems(3) show ?thesis
      by (intro bexI [of _ x] exI [of _ hx]) (simp_all add: set_property_def)
  next
    case False
    with snoc.prems have "c \<in> set xs" by auto
    from snoc.IH [OF this snoc.prems(2,3)] obtain c' h' where
      "c' \<in> set xs" "arc_id c' = arc_id c" "heartbeat c' = Present h'"
      "foldl (\<lambda>acc c. case heartbeat c of
                          Present h \<Rightarrow> set_property acc (arc_id c) (hb_id h)
                        | _ \<Rightarrow> acc) m xs (arc_id c) = Some (hb_id h')"
      by blast
    with False show ?thesis
      by (intro bexI [of _ c'] exI [of _ h'])
         (auto simp: set_property_def split: optional.splits)
  qed
qed

lemma foldl_toHeartbeat_frame:
  "k = ''__proto__'' \<or> (\<forall>c\<in>set cs. \<forall>h. heartbeat c = Present h \<longrightarrow> arc_id c \<noteq> k) \<Longrightarrow>
     foldl (\<lambda>acc c. case heartbeat c of
                       Present h \<Rightarrow> set_property acc (arc_id c) (hb_id h)
                     | _ \<Rightarrow> acc) m cs k = m k"
  by (induction cs rule: rev_induct) (auto simp: set_property_def split: optional.splits)

lemma populateHearbeats_items [simp]:
  "items (st (populateHearbeats cs w)) = items (st w)"
  by (simp add: populateHearbeats_def Let_def)


lemma distinct_same_id:
  "distinct (map f xs) \<Longrightarrow> x \<in> set xs \<Longrightarrow> y \<in> set xs \<Longrightarrow> f x = f y \<Longrightarrow> x = y"
  by (meson distinct_map inj_on_eq_iff)

lemma populateHearbeats_stored:
  "heartbeats_stored cs (st w) (st (populateHearbeats cs w))"
proof -
  let ?hs = "foldl (\<lambda>acc c. case heartbeat c of Present h \<Rightarrow> set_property acc (hb_id h) h
                        | _ \<Rightarrow> acc) Map.empty cs"
  let ?ts = "foldl (\<lambda>acc c. case heartbeat c of
                          Present h \<Rightarrow> set_property acc (arc_id c) (hb_id h)
                        | _ \<Rightarrow> acc) Map.empty cs"
  let ?s' = "st (populateHearbeats cs w)"
  have hs: "heartbeatStore_items ?s' = heartbeatStore_items (st w) ++ ?hs"
    and ts: "alertReceiveChannelToHeartbeat ?s' = alertReceiveChannelToHeartbeat (st w) ++ ?ts"
    by (simp_all add: populateHearbeats_def Let_def)
  have h1: "\<exists>c'\<in>set cs. \<exists>h'. heartbeat c' = Present h' \<and> hb_id h' = hb_id h
            \<and> heartbeatStore_items ?s' (hb_id h) = Some h'"
    if "c \<in> set cs" "heartbeat c = Present h" "hb_id h \<noteq> ''__proto__''" for c h
    using foldl_heartbeats_present [OF that, of Map.empty]
    by (auto simp: hs map_add_Some_iff)
  have h2: "heartbeatStore_items ?s' (hb_id h) = Some h"
    if "c \<in> set cs" "heartbeat c = Present h" "hb_id h \<noteq> ''__proto__''"
      "\<forall>c'\<in>set cs. \<forall>h'. heartbeat c' = Present h' \<and> hb_id h' = hb_id h \<longrightarrow> h' = h" for c h
    using h1 [OF that(1-3)] that(4) by auto
  have h3: "heartbeatStore_items ?s' k = heartbeatStore_items (st w) k"
    if "k = ''__proto__'' \<or> (\<forall>c\<in>set cs. \<forall>h. heartbeat c = Present h \<longrightarrow> hb_id h \<noteq> k)" for k
    using foldl_heartbeats_frame [OF that, of Map.empty]
    by (simp add: hs map_add_def)
  have a1: "\<exists>c'\<in>set cs. \<exists>h'. arc_id c' = arc_id c \<and> heartbeat c' = Present h'
            \<and> alertReceiveChannelToHeartbeat ?s' (arc_id c) = Some (hb_id h')"
    if "c \<in> set cs" "heartbeat c = Present h" "arc_id c \<noteq> ''__proto__''" for c h
    using foldl_toHeartbeat_present [OF that, of Map.empty]
    by (auto simp: ts map_add_Some_iff)
  have a2: "alertReceiveChannelToHeartbeat ?s' (arc_id c) = Some (hb_id h)"
    if "c \<in> set cs" "heartbeat c = Present h" "arc_id c \<noteq> ''__proto__''"
      "distinct (map arc_id cs)" for c h
  proof -
    from a1 [OF that(1-3)] obtain c' h' where
      c': "c' \<in> set cs" "arc_id c' = arc_id c" "heartbeat c' = Present h'"
      "alertReceiveChannelToHeartbeat ?s' (arc_id c) = Some (hb_id h')"
      by blast
    from distinct_same_id [OF that(4) c'(1) that(1) c'(2)] have "c' = c" .
    with c' that(2) show ?thesis by simp
  qed
  have a3: "alertReceiveChannelToHeartbeat ?s' k = alertReceiveChannelToHeartbeat (st w) k"
    if "k = ''__proto__'' \<or> (\<forall>c\<in>set cs. \<forall>h. heartbeat c = Present h \<longrightarrow> arc_id c \<noteq> k)" for k
    using foldl_toHeartbeat_frame [OF that, of Map.empty]
    by (simp add: ts map_add_def)
  show ?thesis
    unfolding heartbeats_stored_def
    using h1 h2 h3 a1 a2 a3 by blast
qed

lemma heartbeats_stored_cong:
  assumes "heartbeats_stored cs s1 s1'"
    and "heartbeatStore_items s2 = heartbeatStore_items s1"
    and "alertReceiveChannelToHeartbeat s2 = alertReceiveChannelToHeartbeat s1"
    and "heartbeatStore_items s2' = heartbeatStore_items s1'"
    and "alertReceiveChannelToHeartbeat s2' = alertReceiveChannelToHeartbeat s1'"
  shows "heartbeats_stored cs s2 s2'"
  using assms by (simp add: heartbeats_stored_def)

lemma fetchCounters_frame:
  "st (snd (fetchCounters e w)) = (st w)\<lparr>counters := counters (st (snd (fetchCounters e w)))\<rparr>"
  by (simp add: fetchCounters_def Let_def split: option.splits)

lemma fetchCounters_items [simp]: "items (st (snd (fetchCounters e w))) = items (st w)"
  by (subst fetchCounters_frame) simp

lemma fetchCounters_heartbeats [simp]:
  "heartbeatStore_items (st (snd (fetchCounters e w))) = heartbeatStore_items (st w)"
  "alertReceiveChannelToHeartbeat (st (snd (fetchCounters e w)))
     = alertReceiveChannelToHeartbeat (st w)"
  by (subst fetchCounters_frame, simp)+

lemma after_list_fetch_steps:
  assumes i: "items s' = items s ++ keyed_without_heartbeat rs"
    and h: "heartbeatStore_items s' = heartbeatStore_items (st (populateHearbeats rs w))"
    and a: "alertReceiveChannelToHeartbeat s'
              = alertReceiveChannelToHeartbeat (st (populateHearbeats rs w))"
    and h0: "heartbeatStore_items s = heartbeatStore_items (st w)"
    and a0: "alertReceiveChannelToHeartbeat s = alertReceiveChannelToHeartbeat (st w)"
  shows "after_list_fetch rs s s'"
  unfolding after_list_fetch_def
proof (intro conjI ballI allI impI)
  fix item assume "item \<in> set rs"
  from keyed_without_heartbeat_present [OF this]
  show "\<exists>item'\<in>set rs. arc_id item' = arc_id item \<and>
         items s' (arc_id item) = Some (item'\<lparr>heartbeat := Missing\<rparr>)"
    by (auto simp: i map_add_Some_iff)
next
  fix k assume "k \<notin> arc_id ` set rs"
  then have "keyed_without_heartbeat rs k = None"
    using dom_keyed_without_heartbeat [of rs] by blast
  then show "items s' k = items s k"
    by (simp add: i map_add_def)
next
  show "heartbeats_stored rs s s'"
    by (rule heartbeats_stored_cong [OF populateHearbeats_stored [of rs w] h0 a0 h a])
qed

lemma fetchItems_Returned:
  assumes "fst (fetchItems e q w) = Returned rs"
  shows "after_list_fetch rs (st w) (st (snd (fetchItems e q w)))"
proof -
  from assms obtain d where
    d: "page_of (network e ((req GET ''/alert_receive_channels/'')
          \<lparr>params := (case q of Search text \<Rightarrow> [(''search'', text)] | Params p \<Rightarrow> p)\<rparr>)) = Some d"
    and rs: "rs = page_results d"
    by (auto simp: fetchItems_def Let_def split: option.splits)
  show ?thesis
    by (rule after_list_fetch_steps [where w = "runInAction Items
            (\<lambda>s. s\<lparr>items := items s ++ keyed_without_heartbeat rs\<rparr>)
            (emit (Request ((req GET ''/alert_receive_channels/'')
          \<lparr>params := (case q of Search text \<Rightarrow> [(''search'', text)] | Params p \<Rightarrow> p)\<rparr>)) w)"])
       (simp_all add: fetchItems_def Let_def d rs [symmetric])
qed

lemma fetchPaginatedItems_Returned:
  assumes "fst (fetchPaginatedItems e filters page c ivf w) = Returned (Some rs)"
  shows "after_list_fetch rs (st w) (st (snd (fetchPaginatedItems e filters page c ivf w)))"
proof -
  from assms obtain d where
    d: "page_of (network e ((req GET ''/alert_receive_channels/'')
                \<lparr>params := AList.update ''page'' (number_text e page) filters\<rparr>)) = Some d"
    and rs: "rs = page_results d" and ivf: "ivf \<noteq> Some True"
    by (auto simp: fetchPaginatedItems_def Let_def split: option.splits if_splits)
  show ?thesis
    by (rule after_list_fetch_steps [where w = "runInAction Items
            (\<lambda>s. s\<lparr>items := items s ++ keyed_without_heartbeat rs\<rparr>)
            (emit (Request ((req GET ''/alert_receive_channels/'')
                \<lparr>params := AList.update ''page'' (number_text e page) filters\<rparr>)) w)"])
       (simp_all add: fetchPaginatedItems_def Let_def d ivf rs [symmetric])
qed

lemma fetchPaginatedItems_invalidated:
  "fst (fetchPaginatedItems e filters page c ivf w) = Returned None \<Longrightarrow>
     st (snd (fetchPaginatedItems e filters page c ivf w)) = st w"
  by (auto simp: fetchPaginatedItems_def Let_def split: option.splits if_splits)

lemma fetchItemById_Returned:
  "fst (fetchItemById e i skip w) = Returned d \<Longrightarrow>
     items (st (snd (fetchItemById e i skip w))) i = Some (d\<lparr>heartbeat := or_null (heartbeat d)\<rparr>)"
  by (auto simp: fetchItemById_def Let_def split: option.splits)

lemma fetchItemById_heartbeats:
  assumes "fst (fetchItemById e i skip w) = Returned d"
  shows "heartbeats_stored [d] (st w) (st (snd (fetchItemById e i skip w)))"
proof -
  let ?w2 = "runInAction Items
               (\<lambda>s. s\<lparr>items := (items s)(i \<mapsto> d\<lparr>heartbeat := or_null (heartbeat d)\<rparr>)\<rparr>)
               (emit (Request ((req GET (''/alert_receive_channels/'' @ i @ ''/''))
                  \<lparr>skipErrorHandling := skip\<rparr>)) w)"
  from assms have "snd (fetchItemById e i skip w) = populateHearbeats [d] ?w2"
    by (auto simp: fetchItemById_def Let_def split: option.splits)
  with populateHearbeats_stored [of "[d]" ?w2] show ?thesis
    by (auto intro: heartbeats_stored_cong)
qed


lemma fetchItems_items:
  "items (st (snd (fetchItems e q w))) =
     (case page_of (network e ((req GET ''/alert_receive_channels/'')
          \<lparr>params := (case q of Search text \<Rightarrow> [(''search'', text)] | Params p \<Rightarrow> p)\<rparr>)) of
        None \<Rightarrow> items (st w)
      | Some d \<Rightarrow> items (st w) ++ keyed_without_heartbeat (page_results d))"
  by (simp add: fetchItems_def Let_def split: option.splits)

lemma fetchPaginatedItems_items:
  "items (st (snd (fetchPaginatedItems e filters page c ivf w))) =
     (case page_of (network e ((req GET ''/alert_receive_channels/'')
                \<lparr>params := AList.update ''page'' (number_text e page) filters\<rparr>)) of
        None \<Rightarrow> items (st w)
      | Some d \<Rightarrow> if ivf = Some True then items (st w)
                  else items (st w) ++ keyed_without_heartbeat (page_results d))"
  by (simp add: fetchPaginatedItems_def Let_def split: option.splits)

lemma written_without_heartbeat:
  "(m ++ keyed_without_heartbeat rs) k = m k
     \<or> (\<exists>c. (m ++ keyed_without_heartbeat rs) k = Some c \<and> heartbeat c = Missing)"
proof (cases "keyed_without_heartbeat rs k")
  case None
  then show ?thesis by (simp add: map_add_def)
next
  case (Some c)
  with keyed_without_heartbeat_Some [OF Some] show ?thesis
    by (auto simp: map_add_def)
qed

text \<open>
  C10. The two fetch paths store items differently with respect to heartbeats. Every
  entry that fetchItems or fetchPaginatedItems writes into items has its heartbeat
  property removed: each key of items either keeps its entry or holds a channel without
  heartbeat; after a fetch that returned the list, every channel of the list is stored
  that way, and the heartbeats are stored instead where populateHearbeats puts them: a
  heartbeat that came with a channel is in the heartbeat store under its own id, and the
  channel's id is mapped to the heartbeat's id in alertReceiveChannelToHeartbeat (the
  last of the list winning where ids repeat, nothing being stored under the id
  __proto__, and every other key of the two mappings keeping its entry). fetchItemById
  stores the response under the requested id with the heartbeat property present: the
  heartbeat of the response, or null when the response has none; its heartbeat goes to
  the same two mappings.
\<close>

theorem heartbeat_of_fetched_items:
  "(items (st (snd (fetchItems e q w))) k = items (st w) k
      \<or> (\<exists>c. items (st (snd (fetchItems e q w))) k = Some c \<and> heartbeat c = Missing))
   \<and> (items (st (snd (fetchPaginatedItems e filters page cnt ivf w))) k = items (st w) k
      \<or> (\<exists>c. items (st (snd (fetchPaginatedItems e filters page cnt ivf w))) k = Some c
             \<and> heartbeat c = Missing))
   \<and> (fst (fetchItems e q w) = Returned rs \<longrightarrow>
        after_list_fetch rs (st w) (st (snd (fetchItems e q w))))
   \<and> (fst (fetchPaginatedItems e filters page cnt ivf w) = Returned (Some rs) \<longrightarrow>
        after_list_fetch rs (st w) (st (snd (fetchPaginatedItems e filters page cnt ivf w))))
   \<and> (fst (fetchItemById e i skip w) = Returned d \<longrightarrow>
        (\<exists>c. items (st (snd (fetchItemById e i skip w))) i = Some c
            \<and> c = d\<lparr>heartbeat := heartbeat c\<rparr>
            \<and> heartbeat c \<noteq> Missing
            \<and> heartbeat c = (case heartbeat d of Present h \<Rightarrow> Present h | _ \<Rightarrow> Null))
        \<and> heartbeats_stored [d] (st w) (st (snd (fetchItemById e i skip w))))"
proof -
  have 1: "items (st (snd (fetchItems e q w))) k = items (st w) k
      \<or> (\<exists>c. items (st (snd (fetchItems e q w))) k = Some c \<and> heartbeat c = Missing)"
    using written_without_heartbeat [of "items (st w)" _ k]
    by (simp add: fetchItems_items split: option.splits)
  have 2: "items (st (snd (fetchPaginatedItems e filters page cnt ivf w))) k = items (st w) k
      \<or> (\<exists>c. items (st (snd (fetchPaginatedItems e filters page cnt ivf w))) k = Some c
             \<and> heartbeat c = Missing)"
    using written_without_heartbeat [of "items (st w)" _ k]
    by (simp add: fetchPaginatedItems_items split: option.splits)
  have 5: "\<exists>c. items (st (snd (fetchItemById e i skip w))) i = Some c
            \<and> c = d\<lparr>heartbeat := heartbeat c\<rparr>
            \<and> heartbeat c \<noteq> Missing
            \<and> heartbeat c = (case heartbeat d of Present h \<Rightarrow> Present h | _ \<Rightarrow> Null)"
    if "fst (fetchItemById e i skip w) = Returned d"
    using fetchItemById_Returned [OF that] by (cases "heartbeat d") simp_all
  from 1 2 5 fetchItems_Returned fetchPaginatedItems_Returned fetchItemById_heartbeats
  show ?thesis
    by blast
qed

theorem heartbeat_of_fetched_items_witness:
  "fst (fetchItems online (Search []) world0) = Returned [channel1, channel2]
   \<and> fst (fetchPaginatedItems online [] 1 False None world0) = Returned (Some [channel1, channel2])
   \<and> fst (fetchItemById online ''B'' False world0) = Returned channel2
   \<and> fst (fetchItemById online ''A'' False world0) = Returned channel1
   \<and> items (st (snd (fetchItems online (Search []) world0))) ''A''
       = Some (channel1\<lparr>heartbeat := Missing\<rparr>)
   \<and> heartbeatStore_items (st (snd (fetchItems online (Search []) world0))) ''H1'' = Some beat1
   \<and> alertReceiveChannelToHeartbeat (st (snd (fetchItems online (Search []) world0))) ''A''
       = Some ''H1''
   \<and> alertReceiveChannelToHeartbeat (st (snd (fetchItems online (Search []) world0))) ''B''
       = None
   \<and> items (st (snd (fetchItemById online ''B'' False world0))) ''B''
       = Some (channel2\<lparr>heartbeat := Null\<rparr>)
   \<and> items (st (snd (fetchItemById online ''A'' False world0))) ''A'' = Some channel1
   \<and> heartbeatStore_items (st (snd (fetchItemById online ''A'' False world0))) ''H1''
       = Some beat1"
  using heartbeat_of_fetched_items [of online "Search []" world0 "''A''" "[]" 1 False None
      "[channel1, channel2]" "''B''" False channel2]
    heartbeat_of_fetched_items [of online "Search []" world0 "''A''" "[]" 1 False None
      "[channel1, channel2]" "''A''" False channel1]
  by (simp add: fetchItems_def fetchPaginatedItems_def fetchItemById_def fetchCounters_def
      populateHearbeats_def set_property_def keyed_without_heartbeat_def omit_heartbeat_def
      Let_def online_def server_def req_def world0_def initial_store_def channel1_def
      channel2_def beat1_def number_text_def safe_integer_def)

section \<open>Which keys an operation keeps\<close>

lemmas op_defs = create_def update_def fetchItemById_def fetchItems_def fetchPaginatedItems_def
  fetchChannelFilters_def saveChannelFilter_def moveChannelFilterToPosition_def
  deleteChannelFilter_def fetchAlertReceiveChannelOptions_def saveAlertReceiveChannel_def
  fetchTemplates_def saveTemplates_def fetchConnectedContactPoints_def fetchCounters_def
  fetchCountersForIntegration_def populateHearbeats_def

lemma items_kept: "dom (items s) \<subseteq> dom (items (st (run e op s)))"
  by (cases op) (auto simp: run_def op_defs Let_def split: option.splits)

lemma channelFilterIds_kept:
  "dom (channelFilterIds s) \<subseteq> dom (channelFilterIds (st (run e op s)))"
  by (cases op) (auto simp: run_def op_defs Let_def split: option.splits)

lemma alertReceiveChannelToHeartbeat_kept:
  "dom (alertReceiveChannelToHeartbeat s)
     \<subseteq> dom (alertReceiveChannelToHeartbeat (st (run e op s)))"
  by (cases op) (auto simp: run_def op_defs Let_def split: option.splits)

lemma actions_kept: "actions (st (run e op s)) = actions s"
  by (cases op) (auto simp: run_def op_defs Let_def split: option.splits)

lemma templates_kept: "dom (templates s) \<subseteq> dom (templates (st (run e op s)))"
  by (cases op) (auto simp: run_def op_defs Let_def split: option.splits)

lemma connectedContactPoints_kept:
  "dom (connectedContactPoints s) \<subseteq> dom (connectedContactPoints (st (run e op s)))"
  by (cases op) (auto simp: run_def op_defs Let_def split: option.splits)

lemma heartbeatStore_items_kept:
  "dom (heartbeatStore_items s) \<subseteq> dom (heartbeatStore_items (st (run e op s)))"
  by (cases op) (auto simp: run_def op_defs Let_def split: option.splits)

lemma channelFilters_kept:
  "\<not> reloads_filters op \<Longrightarrow> dom (channelFilters s) \<subseteq> dom (channelFilters (st (run e op s)))"
  by (cases op) (auto simp: run_def op_defs Let_def split: option.splits)

lemma counters_kept:
  "\<not> refetches_counters op \<Longrightarrow> dom (counters s) \<subseteq> dom (counters (st (run e op s)))"
  by (cases op) (auto simp: run_def op_defs Let_def split: option.splits)

lemma filters_of_Some: "filters_of x = Some fs \<longleftrightarrow> x = Some (RFilters fs)"
  by (cases x rule: filters_of.cases) auto

lemma counters_of_Some: "counters_of x = Some d \<longleftrightarrow> x = Some (RCounters d)"
  by (cases x rule: counters_of.cases) auto

lemma fetchChannelFilters_overwrite:
  "channelFilters (st (snd (fetchChannelFilters e p True w))) = channelFilters (st w)
     \<or> (\<exists>response. network e ((req GET ''/channel_filters/'')
             \<lparr>params := [(''alert_receive_channel'', p)]\<rparr>) = Some (RFilters response)
           \<and> channelFilters (st (snd (fetchChannelFilters e p True w))) = keyed_filters response)"
  by (cases "filters_of (network e ((req GET ''/channel_filters/'')
             \<lparr>params := [(''alert_receive_channel'', p)]\<rparr>))")
     (simp_all add: fetchChannelFilters_def Let_def filters_of_Some)

lemma channelFilters_replaced:
  assumes "reloads_filters op"
  shows "channelFilters (st (run e op s)) = channelFilters s
       \<or> (\<exists>p response. network e ((req GET ''/channel_filters/'')
             \<lparr>params := [(''alert_receive_channel'', p)]\<rparr>) = Some (RFilters response)
           \<and> channelFilters (st (run e op s)) = keyed_filters response)"
proof (cases op)
  case (FetchChannelFilters p ov)
  with assms have ov: "ov" by simp
  show ?thesis
    using fetchChannelFilters_overwrite [of e p "\<lparr>st = s, log = []\<rparr>"]
    by (auto simp: FetchChannelFilters ov run_def)
next
  case (MoveChannelFilterToPosition p old new)
  show ?thesis
  proof (cases "channelFilterIds s p")
    case None
    then show ?thesis
      by (simp add: MoveChannelFilterToPosition run_def moveChannelFilterToPosition_def)
  next
    case (Some ids)
    let ?put = "req PUT (''/channel_filters/'' @ template_ident (js_index ids old)
                            @ ''/move_to_position/?position='' @ number_text e new)"
    let ?w2 = "emit (Request ?put) (assign ChannelFilterIds
                      (\<lambda>s. s\<lparr>channelFilterIds :=
                                (channelFilterIds s)(p \<mapsto> move e ids old new)\<rparr>)
                      \<lparr>st = s, log = []\<rparr>)"
    show ?thesis
    proof (cases "network e ?put")
      case None
      with Some show ?thesis
        by (simp add: MoveChannelFilterToPosition run_def moveChannelFilterToPosition_def Let_def)
    next
      case (Some a)
      with \<open>channelFilterIds s p = Some ids\<close>
      have "st (run e op s) = st (snd (fetchChannelFilters e p True ?w2))"
        by (simp add: MoveChannelFilterToPosition run_def moveChannelFilterToPosition_def Let_def)
      with fetchChannelFilters_overwrite [of e p ?w2] show ?thesis
        by auto
    qed
  qed
next
  case (DeleteChannelFilter i)
  show ?thesis
  proof (cases "channelFilters s i")
    case None
    then show ?thesis
      by (simp add: DeleteChannelFilter run_def deleteChannelFilter_def)
  next
    case f: (Some f)
    show ?thesis
    proof (cases "channelFilterIds s (alert_receive_channel f)")
      case None
      with f show ?thesis
        by (simp add: DeleteChannelFilter run_def deleteChannelFilter_def)
    next
      case ids: (Some ids)
      let ?del = "req DELETE (''/channel_filters/'' @ i)"
      let ?w2 = "emit (Request ?del) (assign ChannelFilterIds
                           (\<lambda>s. s\<lparr>channelFilterIds :=
                                     (channelFilterIds s)
                                       (alert_receive_channel f \<mapsto>
                                          splice_one ids (indexOf ids i))\<rparr>)
                           \<lparr>st = s, log = []\<rparr>)"
      show ?thesis
      proof (cases "network e ?del")
        case None
        with f ids show ?thesis
          by (simp add: DeleteChannelFilter run_def deleteChannelFilter_def Let_def)
      next
        case (Some a)
        with f ids
        have "st (run e op s)
                = st (snd (fetchChannelFilters e (alert_receive_channel f) True ?w2))"
          by (simp add: DeleteChannelFilter run_def deleteChannelFilter_def Let_def)
        with fetchChannelFilters_overwrite [of e "alert_receive_channel f" ?w2] show ?thesis
          by auto
      qed
    qed
  qed
qed (use assms in simp_all)

lemma fetchCounters_replaces:
  "counters (st (snd (fetchCounters e w))) = counters (st w)
     \<or> (\<exists>d. network e (req GET ''/alert_receive_channels/counters/'') = Some (RCounters d)
           \<and> counters (st (snd (fetchCounters e w))) = d)"
  by (cases "counters_of (network e (req GET ''/alert_receive_channels/counters/''))")
     (simp_all add: fetchCounters_def Let_def counters_of_Some)

lemma populateHearbeats_counters [simp]:
  "counters (st (populateHearbeats cs w)) = counters (st w)"
  by (simp add: populateHearbeats_def Let_def)

lemma counters_replaced:
  assumes "refetches_counters op"
  shows "counters (st (run e op s)) = counters s
       \<or> (\<exists>d. network e (req GET ''/alert_receive_channels/counters/'') = Some (RCounters d)
           \<and> counters (st (run e op s)) = d)"
proof (cases op)
  case FetchCounters
  with fetchCounters_replaces [of e "\<lparr>st = s, log = []\<rparr>"] show ?thesis
    by (simp add: run_def)
next
  case (FetchItems q)
  let ?r = "(req GET ''/alert_receive_channels/'')
     \<lparr>params := (case q of Search text \<Rightarrow> [(''search'', text)] | Params p \<Rightarrow> p)\<rparr>"
  show ?thesis
  proof (cases "page_of (network e ?r)")
    case None
    then show ?thesis by (simp add: FetchItems run_def fetchItems_def Let_def)
  next
    case (Some d)
    let ?w4 = "runInAction SearchResult
                         (\<lambda>s. s\<lparr>searchResult := Some (map arc_id (page_results d))\<rparr>)
                (populateHearbeats (page_results d)
                  (runInAction Items
                         (\<lambda>s. s\<lparr>items := items s ++ keyed_without_heartbeat (page_results d)\<rparr>)
                    (emit (Request ?r) \<lparr>st = s, log = []\<rparr>)))"
    from Some have "st (run e op s) = st (snd (fetchCounters e ?w4))"
      by (simp add: FetchItems run_def fetchItems_def Let_def)
    with fetchCounters_replaces [of e ?w4] show ?thesis
      by auto
  qed
next
  case (FetchPaginatedItems filters page c ivf)
  with assms have c: "c" by simp
  let ?r = "(req GET ''/alert_receive_channels/'')
                \<lparr>params := AList.update ''page'' (number_text e page) filters\<rparr>"
  show ?thesis
  proof (cases "page_of (network e ?r)")
    case None
    then show ?thesis by (simp add: FetchPaginatedItems run_def fetchPaginatedItems_def Let_def)
  next
    case (Some d)
    show ?thesis
    proof (cases "ivf = Some True")
      case True
      with Some show ?thesis
        by (simp add: FetchPaginatedItems run_def fetchPaginatedItems_def Let_def)
    next
      case False
      let ?w4 = "runInAction PaginatedSearchResult
                           (\<lambda>s. s\<lparr>paginatedSearchResult :=
                                     \<lparr>count = Some (page_count d),
                                      results = Some (map arc_id (page_results d)),
                                      page_size = Some (page_page_size d)\<rparr>\<rparr>)
                (populateHearbeats (page_results d)
                  (runInAction Items
                         (\<lambda>s. s\<lparr>items := items s ++ keyed_without_heartbeat (page_results d)\<rparr>)
                    (emit (Request ?r) \<lparr>st = s, log = []\<rparr>)))"
      from Some False c have "st (run e op s) = st (snd (fetchCounters e ?w4))"
        by (simp add: FetchPaginatedItems run_def fetchPaginatedItems_def Let_def)
      with fetchCounters_replaces [of e ?w4] show ?thesis
        by auto
    qed
  qed
qed (use assms in simp_all)


text \<open>
  C4, as stated, fails: no operation other than a delete would drop a key from a keyed
  mapping of the store. On a store that holds route F3 of integration B and the
  counters of B, reloading the routes of integration A in overwrite mode, and moving a
  route of A, drop F3 from channelFilters, and fetchCounters drops B from counters.
\<close>

theorem keys_dropped_counterexample:
  "channelFilters store1 ''F3'' = Some filter3
   \<and> channelFilters (st (run online (FetchChannelFilters ''A'' True) store1)) ''F3'' = None
   \<and> channelFilters (st (run online (MoveChannelFilterToPosition ''A'' 0 1) store1)) ''F3'' = None
   \<and> counters store1 ''B'' = Some [(''alerts_count'', 2)]
   \<and> counters (st (run online FetchCounters store1)) ''B'' = None"
  by (simp add: run_def fetchChannelFilters_def moveChannelFilterToPosition_def fetchCounters_def
      keyed_filters_def Let_def store1_def initial_store_def online_def server_def req_def
      js_index_def template_ident_def number_text_def safe_integer_def show_int_def digits_small filter1_def filter2_def)

text \<open>
  C4, amended. No operation of the store, delete included, drops a key from items,
  channelFilterIds, alertReceiveChannelToHeartbeat, actions, templates,
  connectedContactPoints or the items of the heartbeat store: each only adds entries or
  overwrites keyed entries there. channelFilters keeps its keys under every operation
  that does not reload in overwrite mode; the overwrite reload (fetchChannelFilters with
  isOverwrite, which moveChannelFilterToPosition and deleteChannelFilter run after their
  request) leaves channelFilters as it was or replaces it by the filters of the
  response, keyed by id. counters keeps its keys under every operation that does not
  fetch all counters; fetchCounters (which fetchItems runs, and fetchPaginatedItems when
  asked) leaves counters as it was or replaces it by the response.
\<close>

theorem keys_kept:
  "dom (items s) \<subseteq> dom (items (st (run e op s)))
   \<and> dom (channelFilterIds s) \<subseteq> dom (channelFilterIds (st (run e op s)))
   \<and> dom (alertReceiveChannelToHeartbeat s)
        \<subseteq> dom (alertReceiveChannelToHeartbeat (st (run e op s)))
   \<and> dom (actions s) \<subseteq> dom (actions (st (run e op s)))
   \<and> dom (templates s) \<subseteq> dom (templates (st (run e op s)))
   \<and> dom (connectedContactPoints s) \<subseteq> dom (connectedContactPoints (st (run e op s)))
   \<and> dom (heartbeatStore_items s) \<subseteq> dom (heartbeatStore_items (st (run e op s)))
   \<and> (\<not> reloads_filters op \<longrightarrow>
         dom (channelFilters s) \<subseteq> dom (channelFilters (st (run e op s))))
   \<and> (\<not> refetches_counters op \<longrightarrow> dom (counters s) \<subseteq> dom (counters (st (run e op s))))
   \<and> (reloads_filters op \<longrightarrow>
         channelFilters (st (run e op s)) = channelFilters s
         \<or> (\<exists>p response. network e ((req GET ''/channel_filters/'')
                 \<lparr>params := [(''alert_receive_channel'', p)]\<rparr>) = Some (RFilters response)
               \<and> channelFilters (st (run e op s)) = keyed_filters response))
   \<and> (refetches_counters op \<longrightarrow>
         counters (st (run e op s)) = counters s
         \<or> (\<exists>d. network e (req GET ''/alert_receive_channels/counters/'') = Some (RCounters d)
               \<and> counters (st (run e op s)) = d))"
  using items_kept [of s e op] channelFilterIds_kept [of s e op]
    alertReceiveChannelToHeartbeat_kept [of s e op] actions_kept [of e op s]
    templates_kept [of s e op] connectedContactPoints_kept [of s e op]
    heartbeatStore_items_kept [of s e op] channelFilters_kept [of op s e]
    counters_kept [of op s e] channelFilters_replaced [of op e s] counters_replaced [of op e s]
  by simp

theorem keys_kept_witness:
  "\<not> reloads_filters (SaveChannelFilter ''F1'' ''{}'')
   \<and> \<not> refetches_counters (SaveChannelFilter ''F1'' ''{}'')
   \<and> ''F3'' \<in> dom (channelFilters (st (run online (SaveChannelFilter ''F1'' ''{}'') store1)))
   \<and> ''B'' \<in> dom (counters (st (run online (SaveChannelFilter ''F1'' ''{}'') store1)))
   \<and> reloads_filters (DeleteChannelFilter ''F1'')
   \<and> channelFilters (st (run online (DeleteChannelFilter ''F1'') store1))
        = keyed_filters [filter2, filter1]
   \<and> ''B'' \<in> dom (channelFilterIds (st (run online (DeleteChannelFilter ''F1'') store1)))
   \<and> refetches_counters FetchCounters
   \<and> counters (st (run online FetchCounters store1)) = [''A'' \<mapsto> [(''alerts_count'', 1)]]"
  using keys_kept [of store1 online "SaveChannelFilter ''F1'' ''{}''"]
    keys_kept [of store1 online "DeleteChannelFilter ''F1''"]
    keys_kept [of store1 online FetchCounters]
  by (simp add: run_def saveChannelFilter_def deleteChannelFilter_def fetchChannelFilters_def
      fetchCounters_def Let_def store1_def initial_store_def online_def server_def req_def
      filter1_def)

section \<open>Writes and the network call\<close>




lemma log_populateHearbeats [simp]:
  "log (populateHearbeats cs w)
     = log w @ [RunInAction HeartbeatStoreItems, RunInAction AlertReceiveChannelToHeartbeat]"
  by (simp add: populateHearbeats_def Let_def)





























end
